theory Spec2Isabelle
  imports Complex_Main
begin

section \<open>Numbers, clamping and coordinate rounding\<close>

text \<open>
  The nearby-cafes route works on JavaScript numbers, which are IEEE doubles. A number is
  modelled by the real it denotes. The query parameters that reach the arithmetic are finite
  (\<open>toNumber\<close> turns everything else into \<open>null\<close>), and the two environment knobs are taken at
  integer settings. \<open>toNumber\<close> itself parses a string; the model starts from its result,
  \<open>None\<close> standing for \<open>null\<close> (parameter missing, or not a finite number). Comparisons,
  \<open>Math.max\<close> and \<open>Math.min\<close> are exact on doubles; a product or a quotient is rounded to
  the nearest double, which \<open>fl\<close> below does.
\<close>

text \<open>\<^verbatim>\<open>function clamp(n, min, max) { return Math.max(min, Math.min(max, n)); }\<close>\<close>

definition clamp :: "'a::linorder \<Rightarrow> 'a \<Rightarrow> 'a \<Rightarrow> 'a" where
  "clamp n mn mx = max mn (min mx n)"

text \<open>
  Rounding to an integer with ties to the even one, as IEEE arithmetic rounds a significand.
\<close>

definition round_even :: "real \<Rightarrow> int" where
  "round_even y =
     (let r = \<lfloor>y\<rfloor>
      in if y - of_int r < 1 / 2 then r
         else if 1 / 2 < y - of_int r then r + 1
         else if even r then r else r + 1)"

text \<open>The binary exponent of a positive real: \<open>2\<^sup>e \<le> x < 2\<^sup>e\<^sup>+\<^sup>1\<close>.\<close>

function expo :: "real \<Rightarrow> int" where
  "expo x = (if 2 \<le> x then expo (x / 2) + 1
             else if 0 < x \<and> x < 1 then expo (x * 2) - 1
             else 0)"
  by pat_completeness auto
termination
proof (relation "measure (\<lambda>x. if 2 \<le> x then nat \<lfloor>x\<rfloor>
                              else if 0 < x \<and> x < 1 then nat \<lfloor>1 / x\<rfloor> else 0)")
  have half: "\<lfloor>y / 2\<rfloor> < \<lfloor>y\<rfloor>" if "1 \<le> y" for y :: real
  proof -
    have "y - 1 < real_of_int \<lfloor>y\<rfloor>" by linarith
    moreover have "1 \<le> real_of_int \<lfloor>y\<rfloor>"
      using that by (simp add: le_floor_iff)
    ultimately have "y / 2 < real_of_int \<lfloor>y\<rfloor>" by linarith
    then show ?thesis by (simp add: floor_less_iff)
  qed
  show "wf (measure (\<lambda>x::real. if 2 \<le> x then nat \<lfloor>x\<rfloor>
                              else if 0 < x \<and> x < 1 then nat \<lfloor>1 / x\<rfloor> else 0))"
    by simp
  show "(x / 2, x) \<in> measure (\<lambda>x. if 2 \<le> x then nat \<lfloor>x\<rfloor>
                              else if 0 < x \<and> x < 1 then nat \<lfloor>1 / x\<rfloor> else 0)"
    if x: "2 \<le> x" for x :: real
  proof -
    have "\<lfloor>x / 2\<rfloor> < \<lfloor>x\<rfloor>"
      using x by (intro half) simp
    moreover have "0 < \<lfloor>x\<rfloor>"
      using x by linarith
    ultimately show ?thesis
      using x by auto
  qed
  show "(x * 2, x) \<in> measure (\<lambda>x. if 2 \<le> x then nat \<lfloor>x\<rfloor>
                              else if 0 < x \<and> x < 1 then nat \<lfloor>1 / x\<rfloor> else 0)"
    if "\<not> 2 \<le> x" and x: "0 < x \<and> x < 1" for x :: real
  proof -
    have one: "1 < 1 / x"
      using x by simp
    then have pos: "0 < \<lfloor>1 / x\<rfloor>"
      by linarith
    have "1 / (x * 2) = (1 / x) / 2" by simp
    moreover have "\<lfloor>(1 / x) / 2\<rfloor> < \<lfloor>1 / x\<rfloor>"
      using one by (intro half) simp
    ultimately have "\<lfloor>1 / (x * 2)\<rfloor> < \<lfloor>1 / x\<rfloor>" by simp
    then show ?thesis
      using x pos by auto
  qed
qed

declare expo.simps [simp del]

text \<open>
  The double nearest to a real, ties to the even significand: 53 significant bits, and below
  \<open>2\<^sup>-\<^sup>1\<^sup>0\<^sup>2\<^sup>2\<close> the fixed spacing of the subnormal doubles. Overflow to an infinity is not
  modelled, so \<open>fl x\<close> is what the arithmetic returns for \<open>x\<close> of magnitude below \<open>2\<^sup>1\<^sup>0\<^sup>2\<^sup>3\<close>.
\<close>

definition fl :: "real \<Rightarrow> real" where
  "fl x =
     (if x = 0 then 0
      else let e = max (expo \<bar>x\<bar>) (- 1022);
               u = 2 powi (e - 52)
           in of_int (round_even (x / u)) * u)"

text \<open>
  \<open>Math.round\<close> returns the nearest integer, and of the two nearest integers the one
  towards plus infinity when the argument lies exactly between them. The result is exact:
  the integers nearest to a double are doubles.
\<close>

definition Math_round :: "real \<Rightarrow> int" where
  "Math_round x = \<lfloor>x + 1 / 2\<rfloor>"

text \<open>
  \<^verbatim>\<open>function roundCoord(n, precision) {
    const f = Math.pow(10, precision);
    return Math.round(n * f) / f; }\<close>
  The power of ten is exact for the precisions 2 to 5 that the route passes (and up to 22);
  the product and the quotient are rounded to doubles.
\<close>

definition roundCoord :: "real \<Rightarrow> int \<Rightarrow> real" where
  "roundCoord n precision =
     (let f = 10 powi precision
      in fl (of_int (Math_round (fl (n * f))) / f))"

text \<open>
  The cache key is the string \<open>nearby:${rLat}:${rLng}:r=${radiusM}\<close>. The three numbers are
  printed between separators that no printed number contains, so the key is modelled as the
  triple it is printed from.
\<close>

datatype bucket_key = Nearby (key_lat: real) (key_lng: real) (key_radius: real)

definition cacheKey :: "real \<Rightarrow> real \<Rightarrow> real \<Rightarrow> int \<Rightarrow> bucket_key" where
  "cacheKey lat lng radiusM precision =
     (let rLat = roundCoord lat precision;
          rLng = roundCoord lng precision
      in Nearby rLat rLng radiusM)"

text \<open>
  The environment knobs read by the route: \<open>None\<close> is an unset variable, \<open>Some v\<close> one that
  holds the integer \<open>v\<close>. A variable that holds a fraction or no number is not modelled.
\<close>

record config =
  PLACES_QUERY_LATLNG_PRECISION :: "int option"
  PLACES_CACHE_TTL_SECONDS :: "int option"

text \<open>\<^verbatim>\<open>const radiusM = clamp(radius ?? 1500, 200, 5000);\<close>\<close>

definition radiusM_of :: "real option \<Rightarrow> real" where
  "radiusM_of radius = clamp (case radius of None \<Rightarrow> 1500 | Some r \<Rightarrow> r) 200 5000"

text \<open>\<^verbatim>\<open>const precision = clamp(Number(process.env.PLACES_QUERY_LATLNG_PRECISION ?? 3), 2, 5);\<close>\<close>

definition precision_of :: "config \<Rightarrow> int" where
  "precision_of cfg =
     clamp (case PLACES_QUERY_LATLNG_PRECISION cfg of None \<Rightarrow> 3 | Some v \<Rightarrow> v) 2 5"

text \<open>\<^verbatim>\<open>const ttlSeconds = clamp(Number(process.env.PLACES_CACHE_TTL_SECONDS ?? 900), 60, 86400);\<close>\<close>

definition ttlSeconds_of :: "config \<Rightarrow> int" where
  "ttlSeconds_of cfg =
     clamp (case PLACES_CACHE_TTL_SECONDS cfg of None \<Rightarrow> 900 | Some v \<Rightarrow> v) 60 86400"

text \<open>
  The rounding rule the specification names, for comparison with the rounding the route
  performs: the nearest integer, a tie going away from zero; and with it the nearest
  multiple of \<open>10\<^sup>-\<^sup>p\<close> of a coordinate, in exact decimal arithmetic.
\<close>

definition round_half_away :: "real \<Rightarrow> int" where
  "round_half_away x = (if x < 0 then - \<lfloor>- x + 1 / 2\<rfloor> else \<lfloor>x + 1 / 2\<rfloor>)"

definition round_half_away_at :: "real \<Rightarrow> int \<Rightarrow> real" where
  "round_half_away_at n p = of_int (round_half_away (n * 10 powi p)) / 10 powi p"

section \<open>Price tier\<close>

text \<open>\<open>String.prototype.includes\<close>: the argument occurs as a contiguous substring.\<close>

fun starts_with :: "string \<Rightarrow> string \<Rightarrow> bool" where
  "starts_with s [] = True"
| "starts_with [] (c # cs) = False"
| "starts_with (x # xs) (c # cs) = (x = c \<and> starts_with xs cs)"

fun str_includes :: "string \<Rightarrow> string \<Rightarrow> bool" where
  "str_includes [] t = (t = [])"
| "str_includes (x # xs) t = (starts_with (x # xs) t \<or> str_includes xs t)"

text \<open>\<open>p.priceLevel?.includes(t)\<close> is \<open>undefined\<close>, hence falsy, when the field is missing.\<close>

definition opt_includes :: "string option \<Rightarrow> string \<Rightarrow> bool" where
  "opt_includes s t = (case s of None \<Rightarrow> False | Some v \<Rightarrow> str_includes v t)"

text \<open>
  \<^verbatim>\<open>const priceLevelInt =
    p.priceLevel?.includes("FREE") ? 0 :
    p.priceLevel?.includes("INEXPENSIVE") ? 1 :
    p.priceLevel?.includes("MODERATE") ? 2 :
    p.priceLevel?.includes("EXPENSIVE") ? 3 :
    p.priceLevel?.includes("VERY_EXPENSIVE") ? 4 :
    null;\<close>
\<close>

definition priceLevelInt :: "string option \<Rightarrow> int option" where
  "priceLevelInt priceLevel =
     (if opt_includes priceLevel ''FREE'' then Some 0
      else if opt_includes priceLevel ''INEXPENSIVE'' then Some 1
      else if opt_includes priceLevel ''MODERATE'' then Some 2
      else if opt_includes priceLevel ''EXPENSIVE'' then Some 3
      else if opt_includes priceLevel ''VERY_EXPENSIVE'' then Some 4
      else None)"

section \<open>Places, cache entries and the store\<close>

text \<open>An error object as the route's \<open>catch\<close> sees it: \<open>err?.message\<close> may be missing.\<close>

datatype js_error = JsError (message: "string option")

text \<open>
  A record of the upstream search (\<open>GooglePlace\<close>). Every field the route guards with
  \<open>!\<close>, \<open>?.\<close> or \<open>??\<close> is optional here.
\<close>

record google_place =
  gp_id :: "string option"
  gp_displayName :: "string option option"
  gp_formattedAddress :: "string option"
  gp_location :: "(real \<times> real) option"
  gp_rating :: "real option"
  gp_userRatingCount :: "int option"
  gp_priceLevel :: "string option"
  gp_types :: "string list option"

text \<open>
  The columns of \<open>cafes\<close> that the route writes and selects (\<open>col_lat\<close> and \<open>col_lng\<close>
  are the columns \<open>lat\<close> and \<open>lng\<close>, renamed apart from the route's variables).
\<close>

record cafe_cols =
  place_id :: string
  name :: string
  address :: "string option"
  col_lat :: real
  col_lng :: real
  google_rating :: "real option"
  user_ratings_total :: "int option"
  price_level :: "int option"
  types :: "string list option"

text \<open>The object the route upserts: the columns and two timestamps (milliseconds).\<close>

record cafe_upsert =
  cols :: cafe_cols
  last_fetched_at :: int
  updated_at :: int

text \<open>A stored row: the identifier the database gave it, and what was upserted.\<close>

record cafe_row =
  row_id :: string
  row_data :: cafe_upsert

text \<open>What \<open>select("id, place_id, name, ...")\<close> returns of a row.\<close>

type_synonym cafe_json = "string \<times> cafe_cols"

record cache_row =
  cache_key :: bucket_key
  lat_center :: real
  lng_center :: real
  radius_m :: real
  place_ids :: "string list option"
  fetched_at :: int
  expires_at :: int

record checkin_row =
  checkin_id :: string
  cafe_id :: string
  created_at :: int

text \<open>
  Modelled from the spec: the persistent store, an external collaborator of which the
  repository holds only the calls. It keeps the tables in memory: \<open>cafes\<close> with one row per
  place identifier, \<open>places_cache\<close> with one row per key, \<open>checkins\<close>; \<open>id_gen\<close> and
  \<open>next_id\<close> stand for the identifiers the database generates.
\<close>

record store =
  cafes :: "cafe_row list"
  places_cache :: "bucket_key \<rightharpoonup> cache_row"
  checkins :: "checkin_row list"
  id_gen :: "nat \<Rightarrow> string"
  next_id :: nat

definition row_place_id :: "cafe_row \<Rightarrow> string" where
  "row_place_id r = place_id (cols (row_data r))"

definition to_json :: "cafe_row \<Rightarrow> cafe_json" where
  "to_json r = (row_id r, cols (row_data r))"

text \<open>Modelled from the spec: \<open>queryByKeys\<close>, the rows whose place identifier is listed.\<close>

definition select_cafes_in :: "store \<Rightarrow> string list \<Rightarrow> cafe_json list" where
  "select_cafes_in s ids = map to_json (filter (\<lambda>r. row_place_id r \<in> set ids) (cafes s))"

text \<open>
  Modelled from the spec: upsert by place identifier. A row with the identifier is
  overwritten in place and keeps its \<open>id\<close>; otherwise a row is added.
\<close>

definition upsert_cafe :: "cafe_upsert \<Rightarrow> store \<Rightarrow> store" where
  "upsert_cafe c s =
     (if place_id (cols c) \<in> set (map row_place_id (cafes s))
      then s\<lparr>cafes := map (\<lambda>r. if row_place_id r = place_id (cols c)
                                 then r\<lparr>row_data := c\<rparr> else r) (cafes s)\<rparr>
      else s\<lparr>cafes := cafes s @ [\<lparr>row_id = id_gen s (next_id s), row_data = c\<rparr>],
              next_id := Suc (next_id s)\<rparr>)"

definition upsert_cafes :: "cafe_upsert list \<Rightarrow> store \<Rightarrow> store" where
  "upsert_cafes cs s = fold upsert_cafe cs s"

text \<open>Modelled from the spec: upsert by cache key, the last write wins.\<close>

definition upsert_cache :: "cache_row \<Rightarrow> store \<Rightarrow> store" where
  "upsert_cache row s = s\<lparr>places_cache := (places_cache s)(cache_key row \<mapsto> row)\<rparr>"

text \<open>
  The store calls of the two routes, in the order of the source. Any of them may come back
  with an error; \<open>faults\<close> says which, and a call that fails leaves the store as it was.
\<close>

datatype store_call =
  SelectCache | SelectCafesHit | UpsertCafes | UpsertCache | SelectCafesMiss
  | SelectCafeById | InsertCheckin

text \<open>What a request did to its collaborators, in order.\<close>

datatype event =
  EvRateLimitHit string string int int
  | EvSelectCache bucket_key
  | EvSelectCafes "string list"
  | EvSearchNearby real real real
  | EvUpsertCafes "string list"
  | EvUpsertCache bucket_key
  | EvSelectCafeById string
  | EvInsertCheckin string

fun is_upstream_call :: "event \<Rightarrow> bool" where
  "is_upstream_call (EvSearchNearby a b r) = True"
| "is_upstream_call e = False"

fun is_rate_limit_decision :: "event \<Rightarrow> bool" where
  "is_rate_limit_decision (EvRateLimitHit r h w l) = True"
| "is_rate_limit_decision e = False"

definition upstream_calls :: "event list \<Rightarrow> nat" where
  "upstream_calls t = length (filter is_upstream_call t)"

definition rate_limit_decisions :: "event list \<Rightarrow> nat" where
  "rate_limit_decisions t = length (filter is_rate_limit_decision t)"

section \<open>The nearby-cafes route\<close>

text \<open>The JSON answers of the two routes, with their HTTP status.\<close>

datatype response =
  Nearby_json (source: string) (key_used: bucket_key) (radius_used: real)
    (cafes_found: "cafe_json list")
  | Error_json (status: nat) (error_text: string)
  | RateLimited_json (used_now: int) (limit_now: int) (reset_time: int) (retry_after: int)
  | CheckIn_json checkin_row

type_synonym outcome = "response \<times> store \<times> event list"

definition record_call :: "event \<Rightarrow> outcome \<Rightarrow> outcome" where
  "record_call e out = (case out of (r, s, t) \<Rightarrow> (r, s, e # t))"

text \<open>
  \<^verbatim>\<open>catch (err) { return NextResponse.json({ error: err?.message ?? "Unknown error" },
  { status: 500 }); }\<close>
\<close>

definition caught :: "js_error \<Rightarrow> response" where
  "caught err = Error_json 500 (case message err of None \<Rightarrow> ''Unknown error'' | Some m \<Rightarrow> m)"

text \<open>
  The callback of \<open>places.map\<close> (lines 178 to 204 of the route): \<open>null\<close> for a record
  without an identifier or a location, otherwise the object to upsert. \<open>t1\<close> and \<open>t2\<close> are
  the two clock readings of \<open>last_fetched_at\<close> and \<open>updated_at\<close>.
\<close>

definition normalizePlace :: "int \<Rightarrow> int \<Rightarrow> google_place \<Rightarrow> cafe_upsert option" where
  "normalizePlace t1 t2 p =
     (case gp_id p of
        None \<Rightarrow> None
      | Some i \<Rightarrow>
          (if i = [] then None
           else case gp_location p of
                  None \<Rightarrow> None
                | Some loc \<Rightarrow>
                    Some \<lparr>cols = \<lparr>place_id = i,
                                  name = (case gp_displayName p of
                                            Some (Some t) \<Rightarrow> t | _ \<Rightarrow> ''Unknown''),
                                  address = gp_formattedAddress p,
                                  col_lat = fst loc,
                                  col_lng = snd loc,
                                  google_rating = gp_rating p,
                                  user_ratings_total = gp_userRatingCount p,
                                  price_level = priceLevelInt (gp_priceLevel p),
                                  types = gp_types p\<rparr>,
                          last_fetched_at = t1,
                          updated_at = t2\<rparr>))"

text \<open>
  \<open>places.map(...).filter(Boolean)\<close>. The clock \<open>clk\<close> gives the successive readings of
  one request; \<open>i\<close> counts the readings made so far. A record that is kept reads the clock
  twice, a discarded one returns before reading it.
\<close>

fun normalize_places :: "(nat \<Rightarrow> int) \<Rightarrow> nat \<Rightarrow> google_place list \<Rightarrow> cafe_upsert list" where
  "normalize_places clk i [] = []"
| "normalize_places clk i (p # ps) =
     (case normalizePlace (clk i) (clk (i + 1)) p of
        None \<Rightarrow> normalize_places clk i ps
      | Some c \<Rightarrow> c # normalize_places clk (i + 2) ps)"

text \<open>
  \<^verbatim>\<open>cacheRow && new Date(cacheRow.expires_at) > now && cacheRow.place_ids?.length\<close>:
  the identifiers to serve from the cache, if the test passes.
\<close>

definition usable_entry :: "cache_row option \<Rightarrow> int \<Rightarrow> string list option" where
  "usable_entry cacheRow now =
     (case cacheRow of
        None \<Rightarrow> None
      | Some r \<Rightarrow>
          (if now < expires_at r
           then (case place_ids r of
                   None \<Rightarrow> None
                 | Some ids \<Rightarrow> if ids \<noteq> [] then Some ids else None)
           else None))"

record query =
  lat_param :: "real option"
  lng_param :: "real option"
  radius_param :: "real option"

text \<open>Lines 157 to 170: the cache hit.\<close>

definition hit_path ::
  "(store_call \<Rightarrow> js_error option) \<Rightarrow> bucket_key \<Rightarrow> real \<Rightarrow> string list \<Rightarrow> store \<Rightarrow> outcome"
where
  "hit_path faults key radiusM ids s =
     record_call (EvSelectCafes ids)
       (case faults SelectCafesHit of
          Some e \<Rightarrow> (caught e, s, [])
        | None \<Rightarrow> (Nearby_json ''cache'' key radiusM (select_cafes_in s ids), s, []))"

text \<open>Lines 237 to 250: the rows are read back from the store and returned.\<close>

definition read_back ::
  "(store_call \<Rightarrow> js_error option) \<Rightarrow> bucket_key \<Rightarrow> real \<Rightarrow> string list \<Rightarrow> store \<Rightarrow> outcome"
where
  "read_back faults key radiusM placeIds s =
     record_call (EvSelectCafes placeIds)
       (case faults SelectCafesMiss of
          Some e \<Rightarrow> (caught e, s, [])
        | None \<Rightarrow> (Nearby_json ''google'' key radiusM (select_cafes_in s placeIds), s, []))"

text \<open>
  Lines 218 to 231: the row written to \<open>places_cache\<close>, after \<open>i\<close> readings of the clock.
  \<open>Date.now()\<close> is read for \<open>expires_at\<close> before \<open>new Date()\<close> is for \<open>fetched_at\<close>.
\<close>

definition written_entry ::
  "(nat \<Rightarrow> int) \<Rightarrow> nat \<Rightarrow> real \<Rightarrow> real \<Rightarrow> int \<Rightarrow> int \<Rightarrow> bucket_key \<Rightarrow> real \<Rightarrow> string list
     \<Rightarrow> cache_row"
where
  "written_entry clk i lat lng precision ttlSeconds key radiusM placeIds =
     (let expiresAt = clk i + ttlSeconds * 1000
      in \<lparr>cache_key = key,
          lat_center = roundCoord lat precision,
          lng_center = roundCoord lng precision,
          radius_m = radiusM,
          place_ids = Some placeIds,
          fetched_at = clk (i + 1),
          expires_at = expiresAt\<rparr>)"

text \<open>Lines 217 to 235: the cache row is upserted, whatever \<open>placeIds\<close> holds.\<close>

definition persist_cache ::
  "(store_call \<Rightarrow> js_error option) \<Rightarrow> (nat \<Rightarrow> int) \<Rightarrow> nat \<Rightarrow> real \<Rightarrow> real \<Rightarrow> int \<Rightarrow> int
     \<Rightarrow> bucket_key \<Rightarrow> real \<Rightarrow> string list \<Rightarrow> store \<Rightarrow> outcome"
where
  "persist_cache faults clk i lat lng precision ttlSeconds key radiusM placeIds s =
     (let row = written_entry clk i lat lng precision ttlSeconds key radiusM placeIds
      in record_call (EvUpsertCache key)
           (case faults UpsertCache of
              Some e \<Rightarrow> (caught e, s, [])
            | None \<Rightarrow> read_back faults key radiusM placeIds (upsert_cache row s)))"

text \<open>Lines 173 to 215: the upstream search, the normalization and the upsert of places.\<close>

definition miss_path ::
  "(store_call \<Rightarrow> js_error option) \<Rightarrow> (real \<Rightarrow> real \<Rightarrow> real \<Rightarrow> js_error + google_place list)
     \<Rightarrow> (nat \<Rightarrow> int) \<Rightarrow> real \<Rightarrow> real \<Rightarrow> int \<Rightarrow> int \<Rightarrow> bucket_key \<Rightarrow> real \<Rightarrow> store \<Rightarrow> outcome"
where
  "miss_path faults searchNearbyPlaces clk lat lng precision ttlSeconds key radiusM s =
     record_call (EvSearchNearby lat lng radiusM)
       (case searchNearbyPlaces lat lng radiusM of
          Inl e \<Rightarrow> (caught e, s, [])
        | Inr places \<Rightarrow>
            (let cafesToUpsert = normalize_places clk 1 places;
                 placeIds = map (\<lambda>c. place_id (cols c)) cafesToUpsert;
                 i = 1 + 2 * length cafesToUpsert
             in if cafesToUpsert \<noteq> []
                then record_call (EvUpsertCafes placeIds)
                       (case faults UpsertCafes of
                          Some e \<Rightarrow> (caught e, s, [])
                        | None \<Rightarrow>
                            persist_cache faults clk i lat lng precision ttlSeconds key radiusM
                              placeIds (upsert_cafes cafesToUpsert s))
                else persist_cache faults clk i lat lng precision ttlSeconds key radiusM
                       placeIds s))"

text \<open>
  The handler \<open>GET\<close> of the nearby-cafes route (lines 114 to 257). Its inputs besides the
  query: the environment knobs, the faults of the store, the upstream search
  \<open>searchNearbyPlaces\<close> (an error for a thrown one), the clock and the store. It returns the
  answer, the store it leaves and the calls it made. The client factory \<open>supabaseAdmin\<close> is
  taken not to throw.
\<close>

definition GET ::
  "config \<Rightarrow> (store_call \<Rightarrow> js_error option)
     \<Rightarrow> (real \<Rightarrow> real \<Rightarrow> real \<Rightarrow> js_error + google_place list)
     \<Rightarrow> (nat \<Rightarrow> int) \<Rightarrow> query \<Rightarrow> store \<Rightarrow> outcome"
where
  "GET cfg faults searchNearbyPlaces clk q s =
     (case lat_param q of
        None \<Rightarrow> (Error_json 400 ''Missing/invalid lat or lng'', s, [])
      | Some lat \<Rightarrow>
          (case lng_param q of
             None \<Rightarrow> (Error_json 400 ''Missing/invalid lat or lng'', s, [])
           | Some lng \<Rightarrow>
               (let radiusM = radiusM_of (radius_param q);
                    precision = precision_of cfg;
                    ttlSeconds = ttlSeconds_of cfg;
                    key = cacheKey lat lng radiusM precision
                in record_call (EvSelectCache key)
                     (case faults SelectCache of
                        Some e \<Rightarrow> (caught e, s, [])
                      | None \<Rightarrow>
                          (let cacheRow = places_cache s key;
                               now = clk 0
                           in case usable_entry cacheRow now of
                                Some ids \<Rightarrow> hit_path faults key radiusM ids s
                              | None \<Rightarrow>
                                  miss_path faults searchNearbyPlaces clk lat lng precision
                                    ttlSeconds key radiusM s)))))"

definition response_of :: "outcome \<Rightarrow> response" where
  "response_of out = fst out"

definition store_of :: "outcome \<Rightarrow> store" where
  "store_of out = fst (snd out)"

definition calls_of :: "outcome \<Rightarrow> event list" where
  "calls_of out = snd (snd out)"

section \<open>The rate limiter\<close>

text \<open>
  Of a request the limiter reads the headers, and the check-in route the \<open>cafeId\<close> of the
  JSON body: \<open>Inl\<close> when reading the body throws, otherwise what the field holds.
\<close>

datatype cafeId_value = NoCafeId | OtherCafeId | StringCafeId string

record request =
  headers :: "string \<rightharpoonup> string"
  body_cafeId :: "js_error + cafeId_value"

text \<open>A header that is present and not the empty string (the test \<open>if (xff)\<close>).\<close>

definition truthy :: "string option \<Rightarrow> string option" where
  "truthy h = (case h of None \<Rightarrow> None | Some v \<Rightarrow> if v = [] then None else Some v)"

text \<open>
  \<open>String.prototype.trim\<close>. A header value is a byte string, one character a byte; the white
  space and line terminators of JavaScript among the bytes are the six of ASCII and the
  no-break space \<open>0xA0\<close>.
\<close>

definition is_space :: "char \<Rightarrow> bool" where
  "is_space c =
     (c \<in> set [CHR '' '', CHR 0x09, CHR 0x0A, CHR 0x0B, CHR 0x0C, CHR 0x0D, CHR 0xA0])"

definition trim :: "string \<Rightarrow> string" where
  "trim v = rev (dropWhile is_space (rev (dropWhile is_space v)))"

text \<open>
  \<^verbatim>\<open>function getClientIp(req) {
    const xff = req.headers.get("x-forwarded-for");
    if (xff) return xff.split(",")[0]!.trim();
    const realIp = req.headers.get("x-real-ip");
    if (realIp) return realIp.trim();
    return "0.0.0.0"; }\<close>
\<close>

definition getClientIp :: "request \<Rightarrow> string" where
  "getClientIp r =
     (case truthy (headers r ''x-forwarded-for'') of
        Some xff \<Rightarrow> trim (takeWhile (\<lambda>c. c \<noteq> CHR '','') xff)
      | None \<Rightarrow>
          (case truthy (headers r ''x-real-ip'') of
             Some realIp \<Rightarrow> trim realIp
           | None \<Rightarrow> ''0.0.0.0''))"

record rl_opts =
  req :: request
  route :: string
  limit :: int
  windowSeconds :: int

text \<open>The arguments of the store procedure \<open>rate_limit_hit\<close>: they name the counter.\<close>

record rl_args =
  p_route :: string
  p_ip_hash :: string
  p_window_seconds :: int
  p_limit :: int

text \<open>A row the procedure returns; the limiter guards every column with \<open>?.\<close> or \<open>??\<close>.\<close>

record rl_row =
  row_allowed :: "bool option"
  row_used :: "int option"
  row_limit :: "int option"
  row_reset_at :: "int option"

datatype rl_data = DataRows "rl_row list" | DataRow rl_row | DataNull

text \<open>What the limiter returns; \<open>limit_used\<close> is the field \<open>limit\<close> of the source.\<close>

record rl_result =
  allowed :: bool
  used :: int
  limit_used :: int
  resetAt :: int

text \<open>
  The arguments \<open>enforceRateLimit\<close> passes to the procedure. \<open>sha256Base64Url\<close> is the
  digest of the \<open>crypto\<close> library, a parameter here.
\<close>

definition rate_limit_args :: "(string \<Rightarrow> string) \<Rightarrow> rl_opts \<Rightarrow> rl_args" where
  "rate_limit_args sha256Base64Url opts =
     (let ip = getClientIp (req opts);
          ipHash = sha256Base64Url ip
      in \<lparr>p_route = route opts, p_ip_hash = ipHash,
          p_window_seconds = windowSeconds opts, p_limit = limit opts\<rparr>)"

text \<open>\<^verbatim>\<open>const row = Array.isArray(data) ? data[0] : data;\<close>\<close>

definition first_row :: "rl_data \<Rightarrow> rl_row option" where
  "first_row data =
     (case data of
        DataRows rows \<Rightarrow> (case rows of [] \<Rightarrow> None | r # rest \<Rightarrow> Some r)
      | DataRow r \<Rightarrow> Some r
      | DataNull \<Rightarrow> None)"

text \<open>
  \<open>enforceRateLimit\<close> (lines 103 to 133 of the limiter). \<open>rate_limit_hit\<close> is the one
  call to the store, the atomic increment-and-read, with \<open>Inl\<close> for its \<open>error\<close>; \<open>now\<close> is
  the reading of \<open>Date.now()\<close>. \<open>Inl\<close> of the result is the error thrown to the caller.
\<close>

definition enforceRateLimit ::
  "(string \<Rightarrow> string) \<Rightarrow> (rl_args \<Rightarrow> js_error + rl_data) \<Rightarrow> int \<Rightarrow> rl_opts
     \<Rightarrow> js_error + rl_result"
where
  "enforceRateLimit sha256Base64Url rate_limit_hit now opts =
     (case rate_limit_hit (rate_limit_args sha256Base64Url opts) of
        Inl e \<Rightarrow> Inl e
      | Inr data \<Rightarrow>
          (let row = first_row data
           in Inr \<lparr>allowed = (case row of None \<Rightarrow> False
                               | Some r \<Rightarrow> (case row_allowed r of None \<Rightarrow> False | Some b \<Rightarrow> b)),
                   used = (case row of None \<Rightarrow> 0
                            | Some r \<Rightarrow> (case row_used r of None \<Rightarrow> 0 | Some u \<Rightarrow> u)),
                   limit_used = (case row of None \<Rightarrow> limit opts
                                  | Some r \<Rightarrow> (case row_limit r of None \<Rightarrow> limit opts
                                               | Some l \<Rightarrow> l)),
                   resetAt = (case row of None \<Rightarrow> now + windowSeconds opts * 1000
                               | Some r \<Rightarrow> (case row_reset_at r of
                                              None \<Rightarrow> now + windowSeconds opts * 1000
                                            | Some t \<Rightarrow> t))\<rparr>))"

definition rate_limit_event :: "rl_args \<Rightarrow> event" where
  "rate_limit_event a = EvRateLimitHit (p_route a) (p_ip_hash a) (p_window_seconds a) (p_limit a)"

section \<open>The check-in route\<close>

text \<open>Lines 38 to 80 of the check-in route: what follows an allowed request.\<close>

definition check_in ::
  "(store_call \<Rightarrow> js_error option) \<Rightarrow> int \<Rightarrow> request \<Rightarrow> store \<Rightarrow> outcome"
where
  "check_in faults now r s =
     (case body_cafeId r of
        Inl e \<Rightarrow> (caught e, s, [])
      | Inr v \<Rightarrow>
          (case v of
             StringCafeId cafeId \<Rightarrow>
               (if cafeId = [] then (Error_json 400 ''Missing or invalid cafeId'', s, [])
                else record_call (EvSelectCafeById cafeId)
                       (case faults SelectCafeById of
                          Some e \<Rightarrow> (caught e, s, [])
                        | None \<Rightarrow>
                            (if cafeId \<in> set (map row_id (cafes s))
                             then record_call (EvInsertCheckin cafeId)
                                    (case faults InsertCheckin of
                                       Some e \<Rightarrow> (caught e, s, [])
                                     | None \<Rightarrow>
                                         (let checkIn = \<lparr>checkin_id = id_gen s (next_id s),
                                                          cafe_id = cafeId, created_at = now\<rparr>
                                          in (CheckIn_json checkIn,
                                              s\<lparr>checkins := checkins s @ [checkIn],
                                                next_id := Suc (next_id s)\<rparr>, [])))
                             else (Error_json 404 ''Cafe not found'', s, []))))
           | _ \<Rightarrow> (Error_json 400 ''Missing or invalid cafeId'', s, [])))"

text \<open>
  The handler \<open>POST\<close> of the check-in route (lines 5 to 87): the limiter first, with 10
  requests a minute, then the check-in. Here \<open>clk 0\<close> is the reading inside the limiter,
  \<open>clk 1\<close> the one of the \<open>Retry-After\<close> header and \<open>clk 2\<close> the one of \<open>created_at\<close>.
\<close>

definition POST ::
  "(string \<Rightarrow> string) \<Rightarrow> (rl_args \<Rightarrow> js_error + rl_data) \<Rightarrow> (store_call \<Rightarrow> js_error option)
     \<Rightarrow> (nat \<Rightarrow> int) \<Rightarrow> request \<Rightarrow> store \<Rightarrow> outcome"
where
  "POST sha256Base64Url rate_limit_hit faults clk r s =
     (let opts = \<lparr>req = r, route = ''POST /api/checkins'', limit = 10, windowSeconds = 60\<rparr>
      in record_call (rate_limit_event (rate_limit_args sha256Base64Url opts))
           (case enforceRateLimit sha256Base64Url rate_limit_hit (clk 0) opts of
              Inl e \<Rightarrow> (caught e, s, [])
            | Inr rl \<Rightarrow>
                (if \<not> allowed rl
                 then (let retryAfterSec =
                             max 1 \<lceil>real_of_int (resetAt rl - clk 1) / 1000\<rceil>
                       in (RateLimited_json (used rl) (limit_used rl) (resetAt rl) retryAfterSec,
                           s, []))
                 else check_in faults (clk 2) r s)))"

section \<open>Notions of the specification\<close>

text \<open>A record the normalization drops: no identifier, or no coordinates.\<close>

definition discarded :: "google_place \<Rightarrow> bool" where
  "discarded p = (case gp_id p of None \<Rightarrow> True | Some i \<Rightarrow> i = [] \<or> gp_location p = None)"

text \<open>
  The entry of \<open>key\<close> in the new store expires strictly later than the one in the old
  store (nothing is asked when the old store has no entry).
\<close>

definition expiry_strictly_later :: "store \<Rightarrow> store \<Rightarrow> bucket_key \<Rightarrow> bool" where
  "expiry_strictly_later old_store new_store key =
     (case places_cache old_store key of
        None \<Rightarrow> True
      | Some old \<Rightarrow>
          (case places_cache new_store key of
             None \<Rightarrow> False
           | Some new \<Rightarrow> expires_at old < expires_at new))"

section \<open>Example data\<close>

text \<open>Concrete configurations, clocks, places and stores on which the routes are run below.\<close>

definition no_faults :: "store_call \<Rightarrow> js_error option" where
  "no_faults c = None"

definition example_clock :: "nat \<Rightarrow> int" where
  "example_clock n = 1000 + int n"

definition empty_store :: store where
  "empty_store = \<lparr>cafes = [], places_cache = Map.empty, checkins = [],
                   id_gen = (\<lambda>n. ''id'' @ replicate n (CHR ''+'')), next_id = 0\<rparr>"

definition example_place :: google_place where
  "example_place = \<lparr>gp_id = Some ''p1'', gp_displayName = Some (Some ''Blue Cup''),
     gp_formattedAddress = None, gp_location = Some (1 / 2, 1 / 4), gp_rating = Some (9 / 2),
     gp_userRatingCount = Some 10, gp_priceLevel = Some ''PRICE_LEVEL_MODERATE'',
     gp_types = None\<rparr>"

definition example_query :: query where
  "example_query = \<lparr>lat_param = Some (1 / 2), lng_param = Some (1 / 4), radius_param = None\<rparr>"

definition default_config :: config where
  "default_config = \<lparr>PLACES_QUERY_LATLNG_PRECISION = None, PLACES_CACHE_TTL_SECONDS = None\<rparr>"

definition example_key :: bucket_key where
  "example_key = Nearby (1 / 2) (1 / 4) 1500"

definition example_cols :: cafe_cols where
  "example_cols = \<lparr>place_id = ''p1'', name = ''Blue Cup'', address = None, col_lat = 1 / 2,
     col_lng = 1 / 4, google_rating = Some (9 / 2), user_ratings_total = Some 10,
     price_level = Some 2, types = None\<rparr>"

definition example_entry :: cache_row where
  "example_entry = \<lparr>cache_key = example_key, lat_center = 1 / 2, lng_center = 1 / 4,
     radius_m = 1500, place_ids = Some [''p1''], fetched_at = 1004, expires_at = 901003\<rparr>"

definition cached_store :: store where
  "cached_store = \<lparr>cafes = [\<lparr>row_id = ''id'',
                              row_data = \<lparr>cols = example_cols, last_fetched_at = 1001,
                                           updated_at = 1002\<rparr>\<rparr>],
                    places_cache = [example_key \<mapsto> example_entry], checkins = [],
                    id_gen = (\<lambda>n. ''id'' @ replicate n (CHR ''+'')), next_id = 1\<rparr>"

definition failing_search :: "real \<Rightarrow> real \<Rightarrow> real \<Rightarrow> js_error + google_place list" where
  "failing_search a b r = Inl (JsError (Some ''Google Places error 503: unavailable''))"

definition long_ttl_config :: config where
  "long_ttl_config = \<lparr>PLACES_QUERY_LATLNG_PRECISION = None, PLACES_CACHE_TTL_SECONDS = Some 86400\<rparr>"

definition short_ttl_config :: config where
  "short_ttl_config = \<lparr>PLACES_QUERY_LATLNG_PRECISION = None, PLACES_CACHE_TTL_SECONDS = Some 60\<rparr>"

definition empty_search :: "real \<Rightarrow> real \<Rightarrow> real \<Rightarrow> js_error + google_place list" where
  "empty_search a b r = Inr []"

definition example_search :: "real \<Rightarrow> real \<Rightarrow> real \<Rightarrow> js_error + google_place list" where
  "example_search a b r = Inr [example_place]"

definition unlocated_search :: "real \<Rightarrow> real \<Rightarrow> real \<Rightarrow> js_error + google_place list" where
  "unlocated_search a b r = Inr [example_place\<lparr>gp_location := None\<rparr>]"

definition hour_later_clock :: "nat \<Rightarrow> int" where
  "hour_later_clock n = 3600000 + int n"

definition empty_entry :: cache_row where
  "empty_entry = \<lparr>cache_key = example_key, lat_center = 1 / 2, lng_center = 1 / 4,
     radius_m = 1500, place_ids = Some [], fetched_at = 1002, expires_at = 86401001\<rparr>"

definition empty_bucket_store :: store where
  "empty_bucket_store = empty_store\<lparr>places_cache := [example_key \<mapsto> empty_entry]\<rparr>"

definition bare_request :: request where
  "bare_request = \<lparr>headers = Map.empty, body_cafeId = Inr (StringCafeId ''id'')\<rparr>"

definition other_bare_request :: request where
  "other_bare_request = \<lparr>headers = [''user-agent'' \<mapsto> ''curl/8''], body_cafeId = Inr NoCafeId\<rparr>"

definition store_down :: "rl_args \<Rightarrow> js_error + rl_data" where
  "store_down a = Inl (JsError (Some ''connection refused''))"

definition example_opts :: rl_opts where
  "example_opts = \<lparr>req = bare_request, route = ''POST /api/checkins'', limit = 10,
     windowSeconds = 60\<rparr>"

section \<open>Evaluation\<close>

text \<open>
  The coordinates of the example query are doubles with exact products, and are their own
  roundings at precision 3.
\<close>

lemma roundCoord_examples:
  "roundCoord (1 / 2) 3 = 1 / 2"
  "roundCoord (1 / 4) 3 = 1 / 4"
  unfolding roundCoord_def Let_def Math_round_def
  by (simp_all add: fl_def round_even_def expo.simps)

text \<open>The defining equations by which the routes are run on the example data.\<close>

lemmas route_defs =
  GET_def hit_path_def miss_path_def persist_cache_def written_entry_def read_back_def
  record_call_def usable_entry_def radiusM_of_def precision_of_def ttlSeconds_of_def clamp_def
  cacheKey_def roundCoord_examples Let_def
  store_of_def calls_of_def response_of_def upstream_calls_def
  upsert_cache_def upsert_cafes_def upsert_cafe_def select_cafes_in_def to_json_def
  row_place_id_def normalizePlace_def priceLevelInt_def opt_includes_def

lemmas example_defs =
  default_config_def long_ttl_config_def short_ttl_config_def no_faults_def
  example_clock_def hour_later_clock_def empty_store_def cached_store_def empty_bucket_store_def
  example_place_def example_query_def example_key_def example_cols_def example_entry_def
  empty_entry_def failing_search_def empty_search_def example_search_def
  unlocated_search_def

section \<open>Radius clamping\<close>

text \<open>
  C6. Clamping the radius to the default bounds 200 and 5000 is idempotent and saturates
  without an error: 100 becomes 200 and 9000 becomes 5000. A request without a radius uses
  1500, and a request with one uses its clamped value.
\<close>

theorem radius_clamp_idempotent_saturating:
  "clamp (clamp x 200 5000) 200 5000 = clamp (x::real) 200 5000
   \<and> clamp (100::real) 200 5000 = 200
   \<and> clamp (9000::real) 200 5000 = 5000
   \<and> radiusM_of None = 1500
   \<and> radiusM_of (Some x) = clamp x 200 5000
   \<and> radiusM_of (Some (radiusM_of (Some x))) = radiusM_of (Some x)"
  by (simp add: clamp_def radiusM_of_def)

section \<open>Serving from the cache\<close>

lemma usable_entry_None_iff:
  "usable_entry cacheRow now = None \<longleftrightarrow>
     (case cacheRow of None \<Rightarrow> True
      | Some r \<Rightarrow> expires_at r \<le> now \<or> place_ids r = None \<or> place_ids r = Some [])"
  by (auto simp: usable_entry_def split: option.splits)

lemma calls_record_call: "calls_of (record_call e out) = e # calls_of out"
  by (simp add: calls_of_def record_call_def split: prod.splits)

lemma GET_hit:
  assumes "lat_param q = Some lat" and "lng_param q = Some lng"
    and "key = cacheKey lat lng (radiusM_of (radius_param q)) (precision_of cfg)"
    and "usable_entry (places_cache s key) (clk 0) = Some ids"
  shows "GET cfg faults searchNearbyPlaces clk q s =
     record_call (EvSelectCache key)
       (case faults SelectCache of
          Some e \<Rightarrow> (caught e, s, [])
        | None \<Rightarrow> hit_path faults key (radiusM_of (radius_param q)) ids s)"
  using assms by (simp add: GET_def Let_def split: option.splits)

text \<open>
  C1. When the store holds, under the key of the query, an entry that expires strictly after
  the current time and lists at least one place identifier, the route makes no call to the
  upstream search and leaves the store as it is; and, the two reads of the store succeeding,
  it answers with the rows of the listed identifiers and the source \<open>cache\<close>.
\<close>

theorem fresh_entry_served_from_cache:
  assumes "lat_param q = Some lat" and "lng_param q = Some lng"
    and "key = cacheKey lat lng (radiusM_of (radius_param q)) (precision_of cfg)"
    and "places_cache s key = Some row"
    and "clk 0 < expires_at row"
    and "place_ids row = Some ids" and "ids \<noteq> []"
  shows "upstream_calls (calls_of (GET cfg faults searchNearbyPlaces clk q s)) = 0
     \<and> store_of (GET cfg faults searchNearbyPlaces clk q s) = s
     \<and> (faults SelectCache = None \<and> faults SelectCafesHit = None \<longrightarrow>
          response_of (GET cfg faults searchNearbyPlaces clk q s) =
            Nearby_json ''cache'' key (radiusM_of (radius_param q)) (select_cafes_in s ids))"
proof -
  have u: "usable_entry (places_cache s key) (clk 0) = Some ids"
    using assms(4,5,6,7) by (simp add: usable_entry_def)
  have g: "GET cfg faults searchNearbyPlaces clk q s =
     record_call (EvSelectCache key)
       (case faults SelectCache of
          Some e \<Rightarrow> (caught e, s, [])
        | None \<Rightarrow> hit_path faults key (radiusM_of (radius_param q)) ids s)"
    using assms(1,2,3) u by (rule GET_hit)
  show ?thesis
    unfolding g
    by (simp add: hit_path_def record_call_def calls_of_def store_of_def response_of_def
        upstream_calls_def split: option.splits)
qed

lemma example_key_precision:
  "cacheKey (1 / 2) (1 / 4) 1500 (precision_of default_config) = example_key"
  by (simp add: route_defs example_defs)

text \<open>The store \<open>cached_store\<close> is the one a first request leaves behind.\<close>

lemma cached_store_reached:
  "store_of (GET default_config no_faults example_search example_clock example_query
     empty_store) = cached_store"
  by (simp add: route_defs example_defs)

text \<open>
  The store left by a first request is queried again: the entry is fresh, the upstream
  search (which would fail) is not called, and the stored row comes back.
\<close>

theorem fresh_entry_served_from_cache_witness:
  "upstream_calls (calls_of (GET default_config no_faults failing_search example_clock
      example_query cached_store)) = 0
   \<and> response_of (GET default_config no_faults failing_search example_clock
      example_query cached_store) = Nearby_json ''cache'' example_key 1500 [(''id'', example_cols)]"
  using fresh_entry_served_from_cache [where q = example_query and lat = "1 / 2"
      and lng = "1 / 4" and key = example_key and cfg = default_config and s = cached_store
      and row = example_entry and clk = example_clock and ids = "[''p1'']"
      and faults = no_faults and searchNearbyPlaces = failing_search]
  by (simp add: example_query_def example_key_precision cached_store_def example_entry_def
      example_clock_def no_faults_def select_cafes_in_def to_json_def row_place_id_def
      example_cols_def radiusM_of_def clamp_def)

section \<open>Refreshing from the upstream search\<close>

lemma ttlSeconds_ge_60: "60 \<le> ttlSeconds_of cfg"
  by (simp add: ttlSeconds_of_def clamp_def)

lemma normalizePlace_discarded: "discarded p \<Longrightarrow> normalizePlace t1 t2 p = None"
  by (auto simp: normalizePlace_def discarded_def split: option.splits)

lemma normalize_discarded: "list_all discarded places \<Longrightarrow> normalize_places clk i places = []"
  by (induction places arbitrary: i) (simp_all add: normalizePlace_discarded)

lemma GET_miss:
  assumes "lat_param q = Some lat" and "lng_param q = Some lng"
    and "key = cacheKey lat lng (radiusM_of (radius_param q)) (precision_of cfg)"
    and "usable_entry (places_cache s key) (clk 0) = None"
    and "faults SelectCache = None"
  shows "GET cfg faults searchNearbyPlaces clk q s =
     record_call (EvSelectCache key)
       (miss_path faults searchNearbyPlaces clk lat lng (precision_of cfg) (ttlSeconds_of cfg)
          key (radiusM_of (radius_param q)) s)"
  using assms by (simp add: GET_def Let_def)

lemma miss_calls_upstream_once:
  "upstream_calls (calls_of (miss_path faults searchNearbyPlaces clk lat lng precision ttl key
      radiusM s)) = 1"
  by (simp add: miss_path_def persist_cache_def read_back_def record_call_def calls_of_def
      upstream_calls_def Let_def split: sum.splits option.splits)

lemma miss_path_ok:
  assumes "searchNearbyPlaces lat lng radiusM = Inr places"
    and "cs = normalize_places clk 1 places"
    and "ids = map (\<lambda>c. place_id (cols c)) cs"
    and "cs = [] \<or> faults UpsertCafes = None"
    and "faults UpsertCache = None"
    and "s' = upsert_cache (written_entry clk (1 + 2 * length cs) lat lng precision ttl key
                 radiusM ids) (upsert_cafes cs s)"
  shows "miss_path faults searchNearbyPlaces clk lat lng precision ttl key radiusM s =
     ((case faults SelectCafesMiss of
         Some e \<Rightarrow> caught e
       | None \<Rightarrow> Nearby_json ''google'' key radiusM (select_cafes_in s' ids)),
      s',
      EvSearchNearby lat lng radiusM # (if cs = [] then [] else [EvUpsertCafes ids])
        @ [EvUpsertCache key, EvSelectCafes ids])"
  using assms
  by (auto simp: miss_path_def persist_cache_def read_back_def record_call_def Let_def
      upsert_cafes_def split: option.splits)

lemma empty_bucket_store_reached:
  "store_of (GET long_ttl_config no_faults empty_search example_clock example_query empty_store)
     = empty_bucket_store"
  by (simp add: route_defs example_defs)

text \<open>
  A bucket without places is first queried with a time-to-live of 86400 seconds; that
  request leaves \<open>empty_bucket_store\<close>, whose entry lists no identifier and expires at
  86401001. An hour later the time-to-live is configured as 60 seconds and the bucket is
  queried again: the entry is fresh but empty, the upstream search is called, and the entry
  written expires at 3660001, earlier than the one it replaces.
\<close>

theorem refresh_expiry_not_later_counterexample:
  "map_option place_ids (places_cache empty_bucket_store example_key) = Some (Some [])
   \<and> map_option expires_at (places_cache empty_bucket_store example_key) = Some 86401001
   \<and> upstream_calls (calls_of (GET short_ttl_config no_faults empty_search hour_later_clock
         example_query empty_bucket_store)) = 1
   \<and> map_option expires_at (places_cache (store_of (GET short_ttl_config no_faults
         empty_search hour_later_clock example_query empty_bucket_store)) example_key)
       = Some 3660001
   \<and> \<not> expiry_strictly_later empty_bucket_store
         (store_of (GET short_ttl_config no_faults empty_search hour_later_clock example_query
            empty_bucket_store)) example_key"
  by (simp add: route_defs example_defs expiry_strictly_later_def)

lemma GET_miss_outcome:
  assumes "lat_param q = Some lat" and "lng_param q = Some lng"
    and "radiusM = radiusM_of (radius_param q)"
    and "key = cacheKey lat lng radiusM (precision_of cfg)"
    and "usable_entry (places_cache s key) (clk 0) = None"
    and "faults SelectCache = None"
    and "searchNearbyPlaces lat lng radiusM = Inr places"
    and "cs = normalize_places clk 1 places"
    and "ids = map (\<lambda>c. place_id (cols c)) cs"
    and "cs = [] \<or> faults UpsertCafes = None"
    and "faults UpsertCache = None"
    and "s' = upsert_cache (written_entry clk (1 + 2 * length cs) lat lng (precision_of cfg)
                 (ttlSeconds_of cfg) key radiusM ids) (upsert_cafes cs s)"
  shows "GET cfg faults searchNearbyPlaces clk q s =
     ((case faults SelectCafesMiss of
         Some e \<Rightarrow> caught e
       | None \<Rightarrow> Nearby_json ''google'' key radiusM (select_cafes_in s' ids)),
      s',
      EvSelectCache key # EvSearchNearby lat lng radiusM
        # (if cs = [] then [] else [EvUpsertCafes ids])
        @ [EvUpsertCache key, EvSelectCafes ids])"
proof -
  have g: "GET cfg faults searchNearbyPlaces clk q s = record_call (EvSelectCache key)
       (miss_path faults searchNearbyPlaces clk lat lng (precision_of cfg) (ttlSeconds_of cfg)
          key radiusM s)"
    unfolding assms(3) using assms(1,2) assms(4) [unfolded assms(3)] assms(5,6)
    by (rule GET_miss)
  have m: "miss_path faults searchNearbyPlaces clk lat lng (precision_of cfg)
       (ttlSeconds_of cfg) key radiusM s =
     ((case faults SelectCafesMiss of
         Some e \<Rightarrow> caught e
       | None \<Rightarrow> Nearby_json ''google'' key radiusM (select_cafes_in s' ids)),
      s',
      EvSearchNearby lat lng radiusM # (if cs = [] then [] else [EvUpsertCafes ids])
        @ [EvUpsertCache key, EvSelectCafes ids])"
    using assms(7,8,9,10,11,12) by (rule miss_path_ok)
  show ?thesis
    by (simp add: g m record_call_def)
qed

lemma written_entry_fields:
  "place_ids (written_entry clk i lat lng precision ttl key radiusM ids) = Some ids"
  "expires_at (written_entry clk i lat lng precision ttl key radiusM ids) = clk i + ttl * 1000"
  "cache_key (written_entry clk i lat lng precision ttl key radiusM ids) = key"
  by (simp_all add: written_entry_def)

lemma upsert_cache_lookup:
  "places_cache (upsert_cache row s) (cache_key row) = Some row"
  by (simp add: upsert_cache_def)

lemma upsert_cache_cafes: "cafes (upsert_cache row s) = cafes s"
  by (simp add: upsert_cache_def)

lemma GET_miss_calls_upstream_once:
  assumes "lat_param q = Some lat" and "lng_param q = Some lng"
    and "key = cacheKey lat lng (radiusM_of (radius_param q)) (precision_of cfg)"
    and "usable_entry (places_cache s key) (clk 0) = None"
    and "faults SelectCache = None"
  shows "upstream_calls (calls_of (GET cfg faults searchNearbyPlaces clk q s)) = 1"
proof -
  have g: "GET cfg faults searchNearbyPlaces clk q s = record_call (EvSelectCache key)
       (miss_path faults searchNearbyPlaces clk lat lng (precision_of cfg) (ttlSeconds_of cfg)
          key (radiusM_of (radius_param q)) s)"
    using assms by (rule GET_miss)
  have "upstream_calls (calls_of (record_call (EvSelectCache key) out)) =
      upstream_calls (calls_of out)" for out
    by (simp add: calls_record_call upstream_calls_def)
  then show ?thesis
    by (simp add: g miss_calls_upstream_once)
qed

text \<open>
  C2. When the entry of the query's key is absent, expired, or lists no identifier, and the
  reads and writes of the store and the upstream search succeed, the route calls the
  upstream search once and then overwrites the entry under the same key; the entry written
  expires \<open>ttlSeconds\<close> seconds after the clock reading taken at the write. The new expiry
  is strictly later than the old one exactly when the old one lies before that instant; so
  it is wherever the old entry had expired and the clock did not go back since the lookup.
\<close>

theorem miss_refreshes_entry:
  assumes "lat_param q = Some lat" and "lng_param q = Some lng"
    and "radiusM = radiusM_of (radius_param q)"
    and "key = cacheKey lat lng radiusM (precision_of cfg)"
    and "case places_cache s key of
           None \<Rightarrow> True
         | Some old \<Rightarrow> expires_at old \<le> clk 0 \<or> place_ids old = None \<or> place_ids old = Some []"
    and "faults SelectCache = None"
    and "searchNearbyPlaces lat lng radiusM = Inr places"
    and "cs = normalize_places clk 1 places"
    and "ids = map (\<lambda>c. place_id (cols c)) cs"
    and "cs = [] \<or> faults UpsertCafes = None"
    and "faults UpsertCache = None"
    and "out = GET cfg faults searchNearbyPlaces clk q s"
  shows "calls_of out =
           EvSelectCache key # EvSearchNearby lat lng radiusM
             # (if cs = [] then [] else [EvUpsertCafes ids])
             @ [EvUpsertCache key, EvSelectCafes ids]
     \<and> upstream_calls (calls_of out) = 1
     \<and> map_option place_ids (places_cache (store_of out) key) = Some (Some ids)
     \<and> map_option expires_at (places_cache (store_of out) key)
         = Some (clk (1 + 2 * length cs) + ttlSeconds_of cfg * 1000)
     \<and> (case places_cache s key of
           None \<Rightarrow> True
         | Some old \<Rightarrow>
             (expiry_strictly_later s (store_of out) key
                \<longleftrightarrow> expires_at old < clk (1 + 2 * length cs) + ttlSeconds_of cfg * 1000)
             \<and> (expires_at old \<le> clk 0 \<and> clk 0 \<le> clk (1 + 2 * length cs)
                \<longrightarrow> expiry_strictly_later s (store_of out) key))"
proof -
  define row where "row = written_entry clk (1 + 2 * length cs) lat lng (precision_of cfg)
      (ttlSeconds_of cfg) key radiusM ids"
  define s' where "s' = upsert_cache row (upsert_cafes cs s)"
  have u: "usable_entry (places_cache s key) (clk 0) = None"
    using assms(5) by (simp add: usable_entry_None_iff)
  have "out =
     ((case faults SelectCafesMiss of
         Some e \<Rightarrow> caught e
       | None \<Rightarrow> Nearby_json ''google'' key radiusM (select_cafes_in s' ids)),
      s',
      EvSelectCache key # EvSearchNearby lat lng radiusM
        # (if cs = [] then [] else [EvUpsertCafes ids])
        @ [EvUpsertCache key, EvSelectCafes ids])"
    unfolding assms(12)
    using assms(1,2,3,4) u assms(6,7,8,9,10,11) s'_def [unfolded row_def]
    by (rule GET_miss_outcome)
  then have st: "store_of out = s'" and ca: "calls_of out =
           EvSelectCache key # EvSearchNearby lat lng radiusM
             # (if cs = [] then [] else [EvUpsertCafes ids])
             @ [EvUpsertCache key, EvSelectCafes ids]"
    by (simp_all add: store_of_def calls_of_def)
  have "cache_key row = key"
    by (simp add: row_def written_entry_fields)
  then have row: "places_cache s' key = Some row"
    using upsert_cache_lookup [of row "upsert_cafes cs s"] by (simp add: s'_def)
  have ttl: "0 < ttlSeconds_of cfg * 1000"
    using ttlSeconds_ge_60 [of cfg] by simp
  have exact: "places_cache s key = Some old \<Longrightarrow>
      expiry_strictly_later s s' key
        \<longleftrightarrow> expires_at old < clk (1 + 2 * length cs) + ttlSeconds_of cfg * 1000" for old
    by (simp add: expiry_strictly_later_def row row_def written_entry_fields)
  have later: "expires_at old \<le> clk 0 \<Longrightarrow> clk 0 \<le> clk (1 + 2 * length cs)
      \<Longrightarrow> places_cache s key = Some old \<Longrightarrow> expiry_strictly_later s s' key" for old
    using ttl by (simp add: expiry_strictly_later_def row row_def written_entry_fields)
  show ?thesis
    using later exact
    by (auto simp: st ca row row_def written_entry_fields upstream_calls_def
        split: option.splits)
qed

text \<open>
  The store left by a first request is queried an hour later, after its entry (expiring at
  901003) has lapsed: the upstream search is called once and the entry written expires at
  4500003.
\<close>

theorem miss_refreshes_entry_witness:
  "upstream_calls (calls_of (GET default_config no_faults example_search hour_later_clock
      example_query cached_store)) = 1
   \<and> map_option expires_at (places_cache cached_store example_key) = Some 901003
   \<and> map_option expires_at (places_cache (store_of (GET default_config no_faults
        example_search hour_later_clock example_query cached_store)) example_key)
       = Some 4500003
   \<and> expiry_strictly_later cached_store (store_of (GET default_config no_faults
        example_search hour_later_clock example_query cached_store)) example_key"
proof -
  have q: "lat_param example_query = Some (1 / 2)" "lng_param example_query = Some (1 / 4)"
    "1500 = radiusM_of (radius_param example_query)"
    by (simp_all add: example_query_def radiusM_of_def clamp_def)
  have k: "example_key = cacheKey (1 / 2) (1 / 4) 1500 (precision_of default_config)"
    by (simp add: example_key_precision)
  have old: "places_cache cached_store example_key = Some example_entry"
    by (simp add: cached_store_def)
  have e: "expires_at example_entry = 901003"
    by (simp add: example_entry_def)
  have stale: "case places_cache cached_store example_key of
           None \<Rightarrow> True
         | Some old \<Rightarrow> expires_at old \<le> hour_later_clock 0 \<or> place_ids old = None
             \<or> place_ids old = Some []"
    by (simp add: old e hour_later_clock_def)
  have f: "no_faults SelectCache = None" "no_faults UpsertCache = None"
    by (simp_all add: no_faults_def)
  have up: "example_search (1 / 2) (1 / 4) 1500 = Inr [example_place]"
    by (simp add: example_search_def)
  have len: "length (normalize_places hour_later_clock 1 [example_place]) = 1"
    by (simp add: normalizePlace_def example_place_def)
  have f': "normalize_places hour_later_clock 1 [example_place] = []
      \<or> no_faults UpsertCafes = None"
    by (simp add: no_faults_def)
  have ttl: "ttlSeconds_of default_config = 900"
    by (simp add: ttlSeconds_of_def default_config_def clamp_def)
  note t = miss_refreshes_entry [where q = example_query and lat = "1 / 2" and lng = "1 / 4"
      and radiusM = 1500 and key = example_key and cfg = default_config and s = cached_store
      and clk = hour_later_clock and faults = no_faults
      and searchNearbyPlaces = example_search and places = "[example_place]",
      OF q k stale f(1) up refl refl f' f(2) refl]
  have calls: "upstream_calls (calls_of (GET default_config no_faults example_search
      hour_later_clock example_query cached_store)) = 1"
    by (rule t [THEN conjunct2, THEN conjunct1])
  have new: "map_option expires_at (places_cache (store_of (GET default_config no_faults
        example_search hour_later_clock example_query cached_store)) example_key)
       = Some 4500003"
    using t [THEN conjunct2, THEN conjunct2, THEN conjunct2, THEN conjunct1, unfolded len ttl]
    by (simp add: hour_later_clock_def)
  have later: "expiry_strictly_later cached_store (store_of (GET default_config no_faults
        example_search hour_later_clock example_query cached_store)) example_key"
    using t [THEN conjunct2, THEN conjunct2, THEN conjunct2, THEN conjunct2, unfolded len old]
    by (simp add: e ttl hour_later_clock_def)
  show ?thesis
    using calls new later by (simp add: old e)
qed

text \<open>
  C5. On the miss path, the upstream search and the calls to the store succeeding, the route
  reads the rows of \<open>cafes\<close> back by the identifiers it has just written to the cache entry,
  from the store as the writes left it, and returns them with the source \<open>google\<close>.
\<close>

theorem miss_reads_back_source_google:
  assumes "lat_param q = Some lat" and "lng_param q = Some lng"
    and "radiusM = radiusM_of (radius_param q)"
    and "key = cacheKey lat lng radiusM (precision_of cfg)"
    and "case places_cache s key of
           None \<Rightarrow> True
         | Some old \<Rightarrow> expires_at old \<le> clk 0 \<or> place_ids old = None \<or> place_ids old = Some []"
    and "faults = (\<lambda>c. None)"
    and "searchNearbyPlaces lat lng radiusM = Inr places"
    and "ids = map (\<lambda>c. place_id (cols c)) (normalize_places clk 1 places)"
    and "out = GET cfg faults searchNearbyPlaces clk q s"
  shows "response_of out = Nearby_json ''google'' key radiusM (select_cafes_in (store_of out) ids)
     \<and> map_option place_ids (places_cache (store_of out) key) = Some (Some ids)
     \<and> last (calls_of out) = EvSelectCafes ids
     \<and> source (response_of out) = ''google''"
proof -
  define cs where "cs = normalize_places clk 1 places"
  define row where "row = written_entry clk (1 + 2 * length cs) lat lng (precision_of cfg)
      (ttlSeconds_of cfg) key radiusM ids"
  define s' where "s' = upsert_cache row (upsert_cafes cs s)"
  have u: "usable_entry (places_cache s key) (clk 0) = None"
    using assms(5) by (simp add: usable_entry_None_iff)
  have f: "faults SelectCache = None" "cs = [] \<or> faults UpsertCafes = None"
    "faults UpsertCache = None" "faults SelectCafesMiss = None"
    by (simp_all add: assms(6))
  have "out =
     ((case faults SelectCafesMiss of
         Some e \<Rightarrow> caught e
       | None \<Rightarrow> Nearby_json ''google'' key radiusM (select_cafes_in s' ids)),
      s',
      EvSelectCache key # EvSearchNearby lat lng radiusM
        # (if cs = [] then [] else [EvUpsertCafes ids])
        @ [EvUpsertCache key, EvSelectCafes ids])"
    unfolding assms(9)
    using assms(1,2,3,4) u f(1) assms(7) cs_def assms(8) [folded cs_def] f(2,3)
      s'_def [unfolded row_def]
    by (rule GET_miss_outcome)
  then have out: "response_of out = Nearby_json ''google'' key radiusM (select_cafes_in s' ids)"
    "store_of out = s'" "last (calls_of out) = EvSelectCafes ids"
    by (simp_all add: f(4) response_of_def store_of_def calls_of_def)
  have "cache_key row = key"
    by (simp add: row_def written_entry_fields)
  then have row: "places_cache s' key = Some row"
    using upsert_cache_lookup [of row "upsert_cafes cs s"] by (simp add: s'_def)
  show ?thesis
    by (simp add: out row row_def written_entry_fields)
qed

text \<open>A first request on the empty store: the place found upstream is stored and read back.\<close>

theorem miss_reads_back_source_google_witness:
  "response_of (GET default_config (\<lambda>c. None) example_search example_clock example_query
      empty_store) = Nearby_json ''google'' example_key 1500 [(''id'', example_cols)]
   \<and> map_option place_ids (places_cache (store_of (GET default_config (\<lambda>c. None)
        example_search example_clock example_query empty_store)) example_key)
       = Some (Some [''p1''])"
  using miss_reads_back_source_google [where q = example_query and lat = "1 / 2"
      and lng = "1 / 4" and radiusM = 1500 and key = example_key and cfg = default_config
      and s = empty_store and clk = example_clock and faults = "\<lambda>c. None"
      and searchNearbyPlaces = example_search and places = "[example_place]"
      and ids = "[''p1'']"
      and out = "GET default_config (\<lambda>c. None) example_search example_clock example_query
        empty_store"]
  by (simp add: route_defs example_defs)

text \<open>The same request: the source of the answer is \<open>google\<close>, not \<open>upstream\<close>.\<close>

theorem miss_source_not_upstream_counterexample:
  "source (response_of (GET default_config no_faults example_search example_clock example_query
      empty_store)) = ''google''
   \<and> source (response_of (GET default_config no_faults example_search example_clock
      example_query empty_store)) \<noteq> ''upstream''"
  by (simp add: route_defs example_defs)

section \<open>Empty upstream results\<close>

lemma upsert_cafes_Nil: "upsert_cafes [] s = s"
  by (simp add: upsert_cafes_def)

text \<open>
  C9. When the upstream search returns no record, or only records that the normalization
  drops, and the store calls succeed, the route upserts no place but still writes, under the
  key of the query, a cache entry with an empty identifier list. Such an entry is usable at no
  time: every later request for the same key calls the upstream search again.
\<close>

theorem empty_result_entry_written_never_served:
  assumes "lat_param q = Some lat" and "lng_param q = Some lng"
    and "radiusM = radiusM_of (radius_param q)"
    and "key = cacheKey lat lng radiusM (precision_of cfg)"
    and "case places_cache s key of
           None \<Rightarrow> True
         | Some old \<Rightarrow> expires_at old \<le> clk 0 \<or> place_ids old = None \<or> place_ids old = Some []"
    and "faults SelectCache = None"
    and "searchNearbyPlaces lat lng radiusM = Inr places"
    and "list_all discarded places"
    and "faults UpsertCache = None"
    and "out = GET cfg faults searchNearbyPlaces clk q s"
  shows "calls_of out =
           [EvSelectCache key, EvSearchNearby lat lng radiusM, EvUpsertCache key, EvSelectCafes []]
     \<and> cafes (store_of out) = cafes s
     \<and> map_option place_ids (places_cache (store_of out) key) = Some (Some [])
     \<and> usable_entry (places_cache (store_of out) key) t = None
     \<and> (later_faults SelectCache = None \<longrightarrow>
          upstream_calls (calls_of (GET cfg later_faults later_search later_clk q (store_of out))) = 1)"
proof -
  define row where "row = written_entry clk 1 lat lng (precision_of cfg)
      (ttlSeconds_of cfg) key radiusM []"
  define s' where "s' = upsert_cache row s"
  have u: "usable_entry (places_cache s key) (clk 0) = None"
    using assms(5) by (simp add: usable_entry_None_iff)
  have cs: "[] = normalize_places clk 1 places"
    using assms(8) by (simp add: normalize_discarded)
  have s'': "s' = upsert_cache (written_entry clk (1 + 2 * length ([]::cafe_upsert list)) lat lng
      (precision_of cfg) (ttlSeconds_of cfg) key radiusM []) (upsert_cafes [] s)"
    by (simp add: s'_def row_def upsert_cafes_Nil)
  have "out =
     ((case faults SelectCafesMiss of
         Some e \<Rightarrow> caught e
       | None \<Rightarrow> Nearby_json ''google'' key radiusM (select_cafes_in s' [])),
      s',
      EvSelectCache key # EvSearchNearby lat lng radiusM
        # (if ([]::cafe_upsert list) = [] then [] else [EvUpsertCafes []])
        @ [EvUpsertCache key, EvSelectCafes []])"
    unfolding assms(10)
    using assms(1,2,3,4) u assms(6,7) cs _ _ assms(9) s''
    by (rule GET_miss_outcome) simp_all
  then have st: "store_of out = s'" and ca: "calls_of out =
           [EvSelectCache key, EvSearchNearby lat lng radiusM, EvUpsertCache key,
            EvSelectCafes []]"
    by (simp_all add: store_of_def calls_of_def)
  have "cache_key row = key"
    by (simp add: row_def written_entry_fields)
  then have row: "places_cache s' key = Some row"
    using upsert_cache_lookup [of row s] by (simp add: s'_def)
  have ids: "place_ids row = Some []"
    by (simp add: row_def written_entry_fields)
  have never0: "usable_entry (Some row) t' = None" for t'
    by (simp add: usable_entry_None_iff ids)
  have never: "usable_entry (places_cache s' key) t' = None" for t'
    by (simp add: row never0)
  have again: "upstream_calls (calls_of (GET cfg later_faults later_search later_clk q s')) = 1"
    if "later_faults SelectCache = None"
    using assms(1,2) assms(4) [unfolded assms(3)] never that
    by (rule GET_miss_calls_upstream_once)
  have cf: "cafes s' = cafes s"
    by (simp add: s'_def upsert_cache_cafes)
  show ?thesis
    using again by (simp add: st ca row ids never0 cf)
qed

text \<open>
  On the empty store the upstream search returns nothing: the route writes an entry for the
  key all the same, with an empty identifier list.
\<close>

theorem empty_result_cached_counterexample:
  "places_cache empty_store example_key = None
   \<and> map_option place_ids (places_cache (store_of (GET default_config no_faults empty_search
         example_clock example_query empty_store)) example_key) = Some (Some [])
   \<and> calls_of (GET default_config no_faults empty_search example_clock example_query
         empty_store)
       = [EvSelectCache example_key, EvSearchNearby (1 / 2) (1 / 4) 1500,
          EvUpsertCache example_key, EvSelectCafes []]"
  by (simp add: route_defs example_defs)


text \<open>
  The upstream search returns one record without coordinates: an empty entry is written, no
  place is stored, and a request an hour later calls the upstream search again.
\<close>

theorem empty_result_entry_written_never_served_witness:
  "map_option place_ids (places_cache (store_of (GET default_config no_faults unlocated_search
      example_clock example_query empty_store)) example_key) = Some (Some [])
   \<and> cafes (store_of (GET default_config no_faults unlocated_search example_clock
      example_query empty_store)) = []
   \<and> upstream_calls (calls_of (GET default_config no_faults failing_search hour_later_clock
      example_query (store_of (GET default_config no_faults unlocated_search example_clock
      example_query empty_store)))) = 1"
proof -
  have q: "lat_param example_query = Some (1 / 2)" "lng_param example_query = Some (1 / 4)"
    "1500 = radiusM_of (radius_param example_query)"
    by (simp_all add: example_query_def radiusM_of_def clamp_def)
  have k: "example_key = cacheKey (1 / 2) (1 / 4) 1500 (precision_of default_config)"
    by (simp add: example_key_precision)
  have absent: "case places_cache empty_store example_key of
           None \<Rightarrow> True
         | Some old \<Rightarrow> expires_at old \<le> example_clock 0 \<or> place_ids old = None
             \<or> place_ids old = Some []"
    by (simp add: empty_store_def)
  have f: "no_faults SelectCache = None" "no_faults UpsertCache = None"
    by (simp_all add: no_faults_def)
  have up: "unlocated_search (1 / 2) (1 / 4) 1500 = Inr [example_place\<lparr>gp_location := None\<rparr>]"
    by (simp add: unlocated_search_def)
  have d: "list_all discarded [example_place\<lparr>gp_location := None\<rparr>]"
    by (simp add: discarded_def example_place_def)
  note t = empty_result_entry_written_never_served [where q = example_query and lat = "1 / 2"
      and lng = "1 / 4" and radiusM = 1500 and key = example_key and cfg = default_config
      and s = empty_store and clk = example_clock and faults = no_faults
      and searchNearbyPlaces = unlocated_search and later_faults = no_faults
      and later_search = failing_search and later_clk = hour_later_clock,
      OF q k absent f(1) up d f(2) refl]
  have c: "cafes empty_store = []"
    by (simp add: empty_store_def)
  show ?thesis
    using t f(1) by (simp add: c)
qed

section \<open>The rate limiter and the routes\<close>

text \<open>
  C8. Whenever the store's increment-and-read procedure fails, \<open>enforceRateLimit\<close> throws
  that error to its caller; it returns no result, so none with \<open>allowed\<close> true.
\<close>

theorem store_failure_propagates:
  assumes "rate_limit_hit (rate_limit_args sha256Base64Url opts) = Inl e"
  shows "enforceRateLimit sha256Base64Url rate_limit_hit now opts = Inl e
     \<and> (\<forall>r. enforceRateLimit sha256Base64Url rate_limit_hit now opts = Inr r \<longrightarrow> \<not> allowed r)"
  using assms by (simp add: enforceRateLimit_def)

text \<open>With a store that refuses the connection, the limiter throws that error.\<close>

theorem store_failure_propagates_witness:
  "enforceRateLimit id store_down 1000 example_opts = Inl (JsError (Some ''connection refused''))"
  using store_failure_propagates [where rate_limit_hit = store_down and sha256Base64Url = id
      and opts = example_opts and now = 1000 and e = "JsError (Some ''connection refused'')"]
  by (simp add: store_down_def)

text \<open>
  C10. A request with neither an \<open>x-forwarded-for\<close> nor an \<open>x-real-ip\<close> header has the client
  address \<open>0.0.0.0\<close>. Any two such requests, for the same route, limit and window, reach
  the store procedure with the same arguments, the fingerprint being the digest of
  \<open>0.0.0.0\<close>: they count on one counter and get the same decision from it.
\<close>

theorem headerless_clients_share_counter:
  assumes "headers r1 ''x-forwarded-for'' = None" and "headers r1 ''x-real-ip'' = None"
    and "headers r2 ''x-forwarded-for'' = None" and "headers r2 ''x-real-ip'' = None"
  shows "getClientIp r1 = ''0.0.0.0''
     \<and> rate_limit_args sha256Base64Url \<lparr>req = r1, route = rt, limit = l, windowSeconds = w\<rparr>
         = \<lparr>p_route = rt, p_ip_hash = sha256Base64Url ''0.0.0.0'', p_window_seconds = w,
            p_limit = l\<rparr>
     \<and> rate_limit_args sha256Base64Url \<lparr>req = r1, route = rt, limit = l, windowSeconds = w\<rparr>
         = rate_limit_args sha256Base64Url \<lparr>req = r2, route = rt, limit = l, windowSeconds = w\<rparr>
     \<and> enforceRateLimit sha256Base64Url rate_limit_hit now
           \<lparr>req = r1, route = rt, limit = l, windowSeconds = w\<rparr>
         = enforceRateLimit sha256Base64Url rate_limit_hit now
           \<lparr>req = r2, route = rt, limit = l, windowSeconds = w\<rparr>"
proof -
  have ip: "getClientIp r1 = ''0.0.0.0''" "getClientIp r2 = ''0.0.0.0''"
    using assms by (simp_all add: getClientIp_def truthy_def)
  have a1: "rate_limit_args sha256Base64Url \<lparr>req = r1, route = rt, limit = l, windowSeconds = w\<rparr>
         = \<lparr>p_route = rt, p_ip_hash = sha256Base64Url ''0.0.0.0'', p_window_seconds = w,
            p_limit = l\<rparr>"
    by (simp add: rate_limit_args_def ip)
  have a2: "rate_limit_args sha256Base64Url \<lparr>req = r2, route = rt, limit = l, windowSeconds = w\<rparr>
         = \<lparr>p_route = rt, p_ip_hash = sha256Base64Url ''0.0.0.0'', p_window_seconds = w,
            p_limit = l\<rparr>"
    by (simp add: rate_limit_args_def ip)
  have e: "enforceRateLimit sha256Base64Url rate_limit_hit now
           \<lparr>req = r1, route = rt, limit = l, windowSeconds = w\<rparr>
         = enforceRateLimit sha256Base64Url rate_limit_hit now
           \<lparr>req = r2, route = rt, limit = l, windowSeconds = w\<rparr>"
    by (simp add: enforceRateLimit_def a1 a2 Let_def cong: option.case_cong sum.case_cong)
  show ?thesis
    using ip(1) a1 a2 e by simp
qed

text \<open>Two requests without the two headers, differing in their other header and body.\<close>

theorem headerless_clients_share_counter_witness:
  "getClientIp bare_request = ''0.0.0.0''
   \<and> rate_limit_args id \<lparr>req = bare_request, route = ''POST /api/checkins'', limit = 10,
        windowSeconds = 60\<rparr>
       = rate_limit_args id \<lparr>req = other_bare_request, route = ''POST /api/checkins'',
        limit = 10, windowSeconds = 60\<rparr>"
proof -
  have h: "headers bare_request ''x-forwarded-for'' = None"
    "headers bare_request ''x-real-ip'' = None"
    "headers other_bare_request ''x-forwarded-for'' = None"
    "headers other_bare_request ''x-real-ip'' = None"
    by (simp_all add: bare_request_def other_bare_request_def)
  note t = headerless_clients_share_counter [where sha256Base64Url = id
      and rt = "''POST /api/checkins''" and l = 10 and w = 60 and rate_limit_hit = store_down
      and now = 0, OF h]
  show ?thesis
    by (rule conjI) (rule t [THEN conjunct1], rule t [THEN conjunct2, THEN conjunct2, THEN conjunct1])
qed

text \<open>
  The nearby-cafes handler never calls the limiter, on any input, while the check-in
  handler calls it before anything else.
\<close>

lemma GET_consults_no_rate_limiter:
  "rate_limit_decisions (calls_of (GET cfg faults searchNearbyPlaces clk q s)) = 0"
  by (simp add: GET_def hit_path_def miss_path_def persist_cache_def read_back_def Let_def
      record_call_def calls_of_def rate_limit_decisions_def
      split: option.splits sum.splits)

lemma POST_gate_first:
  "\<exists>rest. calls_of (POST sha256Base64Url rate_limit_hit faults clk r s) =
     rate_limit_event (rate_limit_args sha256Base64Url
        \<lparr>req = r, route = ''POST /api/checkins'', limit = 10, windowSeconds = 60\<rparr>) # rest"
  by (simp add: POST_def Let_def calls_record_call)

text \<open>
  C7. Every nearby-cafes query should meet the rate limiter before the resolver runs. The
  handler does not do so: on a first query for a bucket it looks the cache up, searches
  upstream and writes to the store, and no rate-limit decision is among its calls.
\<close>

theorem nearby_query_meets_no_gate:
  "calls_of (GET default_config no_faults example_search example_clock example_query
      empty_store)
     = [EvSelectCache example_key, EvSearchNearby (1 / 2) (1 / 4) 1500, EvUpsertCafes [''p1''],
        EvUpsertCache example_key, EvSelectCafes [''p1'']]
   \<and> rate_limit_decisions (calls_of (GET default_config no_faults example_search example_clock
      example_query empty_store)) = 0"
  by (simp add: route_defs example_defs rate_limit_decisions_def)

section \<open>Price tiers\<close>

text \<open>A string that includes \<open>VERY_EXPENSIVE\<close> includes \<open>EXPENSIVE\<close>, which is tested first.\<close>

lemma starts_with_append: "starts_with s (p @ t) \<Longrightarrow> str_includes s t"
proof (induction p arbitrary: s)
  case Nil
  then show ?case by (cases s; cases t) auto
next
  case (Cons c p)
  then show ?case by (cases s) auto
qed

lemma str_includes_suffix: "str_includes s (p @ t) \<Longrightarrow> str_includes s t"
  by (induction s) (auto dest: starts_with_append)

lemma tier_4_unreachable: "priceLevelInt priceLevel \<noteq> Some 4"
  using str_includes_suffix [of _ "''VERY_''" "''EXPENSIVE''"]
  by (auto simp: priceLevelInt_def opt_includes_def split: option.splits)

lemma recognized_tiers:
  "priceLevelInt (Some ''PRICE_LEVEL_FREE'') = Some 0"
  "priceLevelInt (Some ''PRICE_LEVEL_INEXPENSIVE'') = Some 1"
  "priceLevelInt (Some ''PRICE_LEVEL_MODERATE'') = Some 2"
  "priceLevelInt (Some ''PRICE_LEVEL_EXPENSIVE'') = Some 3"
  "priceLevelInt (Some ''PRICE_LEVEL_UNSPECIFIED'') = None"
  "priceLevelInt None = None"
  by (simp_all add: priceLevelInt_def opt_includes_def)

text \<open>
  C3. Each of the five tier strings of the provider should map to its ordinal, 0 to 4, and
  anything else to \<open>null\<close>. The route maps the fifth, \<open>PRICE_LEVEL_VERY_EXPENSIVE\<close>, to 3
  and not to 4: the test for \<open>EXPENSIVE\<close> comes before the one for \<open>VERY_EXPENSIVE\<close> and
  matches it too.
\<close>

theorem very_expensive_tier_maps_to_3:
  "priceLevelInt (Some ''PRICE_LEVEL_VERY_EXPENSIVE'') = Some 3
   \<and> priceLevelInt (Some ''VERY_EXPENSIVE'') = Some 3"
  by (simp add: priceLevelInt_def opt_includes_def)

section \<open>Coordinate rounding\<close>

text \<open>The exponent found by \<open>expo\<close> is the binary exponent, and \<open>fl\<close> errs by half a unit at most.\<close>

lemma expo_bounds: "0 < x \<Longrightarrow> 2 powi expo x \<le> x \<and> x < 2 powi (expo x + 1)"
proof (induction x rule: expo.induct)
  case (1 x)
  have up: "2 powi (e + 1) = 2 * (2 powi e :: real)" for e :: int
    by (simp add: power_int_add)
  show ?case
  proof (cases "2 \<le> x")
    case True
    then have e: "expo x = expo (x / 2) + 1"
      by (simp add: expo.simps [of x])
    have "2 powi expo (x / 2) \<le> x / 2 \<and> x / 2 < 2 powi (expo (x / 2) + 1)"
      using "1.IH"(1) [OF True] "1.prems" by simp
    then show ?thesis
      unfolding e up by simp
  next
    case False
    show ?thesis
    proof (cases "x < 1")
      case True
      with False "1.prems" have e: "expo x = expo (x * 2) - 1"
        by (simp add: expo.simps [of x])
      have "2 powi expo (x * 2) \<le> x * 2 \<and> x * 2 < 2 powi (expo (x * 2) + 1)"
        using "1.IH"(2) [OF False] True "1.prems" by simp
      moreover have "2 powi expo (x * 2) = 2 * (2 powi (expo (x * 2) - 1) :: real)"
        using up [of "expo (x * 2) - 1"] by simp
      ultimately show ?thesis
        unfolding e up by simp
    next
      case nl: False
      with False have "expo x = 0"
        by (simp add: expo.simps [of x])
      with nl False show ?thesis
        by simp
    qed
  qed
qed

lemma round_even_nearest: "\<bar>real_of_int (round_even y) - y\<bar> \<le> 1 / 2"
proof -
  have "real_of_int \<lfloor>y\<rfloor> \<le> y" and "y < real_of_int \<lfloor>y\<rfloor> + 1"
    by linarith+
  then show ?thesis
    by (auto simp: round_even_def Let_def)
qed

lemma fl_nearest:
  assumes "x \<noteq> 0"
  shows "\<bar>fl x - x\<bar> \<le> 2 powi (max (expo \<bar>x\<bar>) (- 1022) - 53)"
proof -
  define u :: real where "u = 2 powi (max (expo \<bar>x\<bar>) (- 1022) - 52)"
  have u: "0 < u"
    by (simp add: u_def zero_less_power_int)
  have "fl x - x = (real_of_int (round_even (x / u)) - x / u) * u"
    using assms u by (simp add: fl_def Let_def u_def [symmetric] left_diff_distrib)
  then have "\<bar>fl x - x\<bar> = \<bar>real_of_int (round_even (x / u)) - x / u\<bar> * u"
    using u by (simp add: abs_mult)
  also have "\<dots> \<le> 1 / 2 * u"
    using round_even_nearest [of "x / u"] u by (intro mult_right_mono) simp_all
  also have "1 / 2 * u = 2 powi (max (expo \<bar>x\<bar>) (- 1022) - 53)"
    by (simp add: u_def power_int_diff)
  finally show ?thesis .
qed

text \<open>\<open>Math.round\<close> on the product as computed, against rounding half away from zero.\<close>

lemma Math_round_nearest: "\<bar>real_of_int (Math_round x) - x\<bar> \<le> 1 / 2"
  by (simp only: Math_round_def round_def [symmetric] of_int_round_abs_le)

lemma frac_half: "frac x = 1 / 2 \<Longrightarrow> x = real_of_int \<lfloor>x\<rfloor> + 1 / 2"
  by (simp add: frac_def)

lemma tie_up:
  assumes "frac x = 1 / 2"
  shows "real_of_int (Math_round x) = x + 1 / 2"
proof -
  have "x + 1 / 2 = real_of_int (\<lfloor>x\<rfloor> + 1)"
    using frac_half [OF assms] by simp
  then have "\<lfloor>x + 1 / 2\<rfloor> = \<lfloor>x\<rfloor> + 1"
    by (simp only: floor_of_int)
  then show ?thesis
    using frac_half [OF assms] by (simp add: Math_round_def)
qed

lemma away_tie:
  assumes "x < 0" and "frac x = 1 / 2"
  shows "real_of_int (round_half_away x) = x - 1 / 2"
proof -
  have "- x + 1 / 2 = real_of_int (- \<lfloor>x\<rfloor>)"
    using frac_half [OF assms(2)] by simp
  then have "\<lfloor>- x + 1 / 2\<rfloor> = - \<lfloor>x\<rfloor>"
    by (simp only: floor_of_int)
  then show ?thesis
    using assms(1) frac_half [OF assms(2)] by (simp add: round_half_away_def)
qed

lemma away_eq:
  assumes "0 \<le> x \<or> frac x \<noteq> 1 / 2"
  shows "round_half_away x = Math_round x"
proof (cases "x < 0")
  case False
  then show ?thesis by (simp add: round_half_away_def Math_round_def)
next
  case True
  with assms have nt: "frac x \<noteq> 1 / 2" by simp
  define m where "m = \<lfloor>x + 1 / 2\<rfloor>"
  have lo: "real_of_int m \<le> x + 1 / 2" and hi: "x + 1 / 2 < real_of_int m + 1"
    unfolding m_def by linarith+
  have "real_of_int m \<noteq> x + 1 / 2"
  proof
    assume "real_of_int m = x + 1 / 2"
    then have "x - 1 / 2 = real_of_int (m - 1)" by simp
    then have "x - 1 / 2 \<in> \<int>" by (simp only: Ints_of_int)
    then have "frac x = 1 / 2" unfolding frac_unique_iff by simp
    with nt show False by simp
  qed
  with lo have lo': "real_of_int m < x + 1 / 2" by simp
  have "\<lfloor>- x + 1 / 2\<rfloor> = - m"
    by (rule floor_unique) (use lo' hi in simp_all)
  then show ?thesis
    using True by (simp add: round_half_away_def Math_round_def m_def)
qed

lemma negative_tie:
  assumes "x < 0" and "frac x = 1 / 2"
  shows "Math_round x = round_half_away x + 1"
    and "\<bar>real_of_int (Math_round x)\<bar> < \<bar>x\<bar>"
proof -
  have "real_of_int (Math_round x) = real_of_int (round_half_away x + 1)"
    using tie_up [OF assms(2)] away_tie [OF assms] by simp
  then show "Math_round x = round_half_away x + 1"
    by (simp only: of_int_eq_iff)
  have "x = real_of_int \<lfloor>x\<rfloor> + 1 / 2"
    using assms(2) by (rule frac_half)
  moreover have "\<lfloor>x\<rfloor> < 0"
    using assms(1) by linarith
  then have "real_of_int \<lfloor>x\<rfloor> \<le> - 1"
    by linarith
  ultimately have "x + 1 / 2 \<le> 0"
    by linarith
  then show "\<bar>real_of_int (Math_round x)\<bar> < \<bar>x\<bar>"
    using tie_up [OF assms(2)] by linarith
qed

text \<open>
  Three doubles on which the rounded product decides: the doubles nearest to \<open>-179.9995\<close>,
  \<open>1.0005\<close> and \<open>-1.0035\<close> are rounded to the doubles nearest to \<open>-179.999\<close>, \<open>1.001\<close> and
  \<open>-1.004\<close>.
\<close>

lemma roundCoord_on_doubles:
  "fl (- 1583292345950929 / 8796093022208) = - 1583292345950929 / 8796093022208"
  "fl (- 1583292345950929 / 8796093022208 * 10 powi 3) = - 359999 / 2"
  "roundCoord (- 1583292345950929 / 8796093022208) 3 = fl (- 179999 / 1000)"
  "roundCoord (4505851427184181 / 4503599627370496) 3 = fl (1001 / 1000)"
  "roundCoord (- 4519362226066293 / 4503599627370496) 3 = fl (- 1004 / 1000)"
  unfolding roundCoord_def Let_def Math_round_def
  by (simp_all add: fl_def round_even_def expo.simps)

lemma first_call_is_lookup:
  assumes "lat_param q = Some lat" and "lng_param q = Some lng"
  shows "hd (calls_of (GET cfg faults searchNearbyPlaces clk q s)) =
     EvSelectCache (cacheKey lat lng (radiusM_of (radius_param q)) (precision_of cfg))"
  using assms by (simp add: GET_def Let_def calls_record_call)

text \<open>
  C4. For every coordinate \<open>n\<close> that is a double of magnitude at most \<open>2\<^sup>1\<^sup>0\<^sup>0\<^sup>0\<close>, and every
  precision \<open>p\<close> from 2 to 5, \<open>roundCoord\<close> takes the product \<open>n \<cdot> 10\<^sup>p\<close> as the double
  arithmetic computes it to the nearest integer, of two nearest integers to the one towards
  plus infinity, and returns the double nearest to that integer over \<open>10\<^sup>p\<close>, within
  half a unit in its last place. The integer is
  the one rounding half away from zero picks unless the computed product is negative and
  exactly between two integers: there the two differ by one and the result is the one
  nearer to zero. The key rounds latitude and longitude each on its own, with the precision
  3 when the knob is unset and the knob clamped to 2 and 5 when it is set to an integer.
\<close>

theorem roundCoord_rounds_half_up:
  assumes "2 \<le> p" and "p \<le> 5" and "fl n = n" and "\<bar>n\<bar> \<le> 2 ^ 1000"
    and "x = fl (n * 10 powi p)"
  shows "roundCoord n p = fl (real_of_int (Math_round x) / 10 powi p)
   \<and> \<bar>real_of_int (Math_round x) - x\<bar> \<le> 1 / 2
   \<and> (frac x = 1 / 2 \<longrightarrow> real_of_int (Math_round x) = x + 1 / 2)
   \<and> (0 \<le> x \<or> frac x \<noteq> 1 / 2 \<longrightarrow> Math_round x = round_half_away x)
   \<and> (x < 0 \<and> frac x = 1 / 2 \<longrightarrow>
        Math_round x = round_half_away x + 1 \<and> \<bar>real_of_int (Math_round x)\<bar> < \<bar>x\<bar>)
   \<and> cacheKey lat lng radiusM p = Nearby (roundCoord lat p) (roundCoord lng p) radiusM
   \<and> precision_of (cfg\<lparr>PLACES_QUERY_LATLNG_PRECISION := None\<rparr>) = 3
   \<and> precision_of (cfg\<lparr>PLACES_QUERY_LATLNG_PRECISION := Some v\<rparr>) = clamp v 2 5
   \<and> (lat_param q = Some lat \<and> lng_param q = Some lng \<longrightarrow>
        hd (calls_of (GET cfg faults searchNearbyPlaces clk q s)) =
          EvSelectCache (Nearby (roundCoord lat (precision_of cfg))
            (roundCoord lng (precision_of cfg)) (radiusM_of (radius_param q))))
   \<and> (Math_round x = 0 \<longrightarrow> roundCoord n p = 0)
   \<and> (Math_round x \<noteq> 0 \<longrightarrow>
        \<bar>roundCoord n p - real_of_int (Math_round x) / 10 powi p\<bar>
          \<le> 2 powi (max (expo \<bar>real_of_int (Math_round x) / 10 powi p\<bar>) (- 1022) - 53))"
proof -
  have r: "roundCoord n p = fl (real_of_int (Math_round x) / 10 powi p)"
    by (simp add: roundCoord_def Let_def assms(5))
  have z: "Math_round x = 0 \<longrightarrow> roundCoord n p = 0"
    by (simp add: r fl_def)
  have "real_of_int (Math_round x) / 10 powi p \<noteq> 0" if "Math_round x \<noteq> 0"
    using that by simp
  then have h: "Math_round x \<noteq> 0 \<longrightarrow>
        \<bar>roundCoord n p - real_of_int (Math_round x) / 10 powi p\<bar>
          \<le> 2 powi (max (expo \<bar>real_of_int (Math_round x) / 10 powi p\<bar>) (- 1022) - 53)"
    unfolding r using fl_nearest [of "real_of_int (Math_round x) / 10 powi p"] by blast
  have k: "cacheKey lat lng radiusM p = Nearby (roundCoord lat p) (roundCoord lng p) radiusM"
    for radiusM p
    by (simp add: cacheKey_def)
  have c: "precision_of (cfg\<lparr>PLACES_QUERY_LATLNG_PRECISION := None\<rparr>) = 3"
    "precision_of (cfg\<lparr>PLACES_QUERY_LATLNG_PRECISION := Some v\<rparr>) = clamp v 2 5"
    by (simp_all add: precision_of_def clamp_def)
  have g: "lat_param q = Some lat \<and> lng_param q = Some lng \<longrightarrow>
        hd (calls_of (GET cfg faults searchNearbyPlaces clk q s)) =
          EvSelectCache (Nearby (roundCoord lat (precision_of cfg))
            (roundCoord lng (precision_of cfg)) (radiusM_of (radius_param q)))"
    using first_call_is_lookup [of q lat lng cfg faults searchNearbyPlaces clk s]
    by (simp add: cacheKey_def)
  have t: "frac x = 1 / 2 \<longrightarrow> real_of_int (Math_round x) = x + 1 / 2"
    using tie_up [of x] by blast
  have e: "0 \<le> x \<or> frac x \<noteq> 1 / 2 \<longrightarrow> Math_round x = round_half_away x"
    using away_eq [of x] by auto
  have m: "x < 0 \<and> frac x = 1 / 2 \<longrightarrow>
        Math_round x = round_half_away x + 1 \<and> \<bar>real_of_int (Math_round x)\<bar> < \<bar>x\<bar>"
    using negative_tie [of x] by blast
  show ?thesis
    using r Math_round_nearest [of x] t e m k [of radiusM p] c g z h by blast
qed

text \<open>
  A negative and a positive tie at precision 3, and the double nearest to \<open>1.0005\<close>, whose
  product with 1000 is computed as the tie \<open>1000.5\<close>.
\<close>

theorem roundCoord_rounds_half_up_witness:
  "roundCoord (- 1 / 16) 3 = fl (- 62 / 1000)
   \<and> Math_round (- 125 / 2) = round_half_away (- 125 / 2) + 1
   \<and> roundCoord (1 / 16) 3 = fl (63 / 1000)
   \<and> Math_round (125 / 2) = round_half_away (125 / 2)
   \<and> roundCoord (4505851427184181 / 4503599627370496) 3 = fl (1001 / 1000)"
proof -
  have p: "(2::int) \<le> 3" "(3::int) \<le> 5"
    by simp_all
  have d: "fl (- 1 / 16) = - 1 / 16" "fl (1 / 16) = 1 / 16"
    "fl (4505851427184181 / 4503599627370496) = 4505851427184181 / 4503599627370496"
    by (simp_all add: fl_def round_even_def expo.simps)
  have b: "\<bar>- 1 / 16 :: real\<bar> \<le> 2 ^ 1000" "\<bar>1 / 16 :: real\<bar> \<le> 2 ^ 1000"
    "\<bar>4505851427184181 / 4503599627370496 :: real\<bar> \<le> 2 ^ 1000"
    by simp_all
  have x: "- 125 / 2 = fl (- 1 / 16 * 10 powi 3)" "125 / 2 = fl (1 / 16 * 10 powi 3)"
    "2001 / 2 = fl (4505851427184181 / 4503599627370496 * 10 powi 3)"
    by (simp_all add: fl_def round_even_def expo.simps)
  have f: "frac (- 125 / 2 :: real) = 1 / 2" "frac (125 / 2 :: real) = 1 / 2"
    "frac (2001 / 2 :: real) = 1 / 2"
    by (simp_all add: frac_def)
  note neg = roundCoord_rounds_half_up [OF p d(1) b(1) x(1)]
  note pos = roundCoord_rounds_half_up [OF p d(2) b(2) x(2)]
  note dbl = roundCoord_rounds_half_up [OF p d(3) b(3) x(3)]
  have m: "Math_round (- 125 / 2) = - 62" "Math_round (125 / 2) = 63"
    "Math_round (2001 / 2) = 1001"
    using neg [THEN conjunct2, THEN conjunct2, THEN conjunct1]
      pos [THEN conjunct2, THEN conjunct2, THEN conjunct1]
      dbl [THEN conjunct2, THEN conjunct2, THEN conjunct1] f
    by simp_all
  have "roundCoord (- 1 / 16) 3 = fl (- 62 / 1000)"
    using neg [THEN conjunct1] by (simp only: m) simp
  moreover have "Math_round (- 125 / 2) = round_half_away (- 125 / 2) + 1"
    using neg [THEN conjunct2, THEN conjunct2, THEN conjunct2, THEN conjunct2, THEN conjunct1] f
    by simp
  moreover have "roundCoord (1 / 16) 3 = fl (63 / 1000)"
    using pos [THEN conjunct1] by (simp only: m) simp
  moreover have "Math_round (125 / 2) = round_half_away (125 / 2)"
    using pos [THEN conjunct2, THEN conjunct2, THEN conjunct2, THEN conjunct1] by simp
  moreover have "roundCoord (4505851427184181 / 4503599627370496) 3 = fl (1001 / 1000)"
    using dbl [THEN conjunct1] by (simp only: m) simp
  ultimately show ?thesis
    by blast
qed

text \<open>
  At the default precision, the latitude \<open>-0.0625\<close>, a double, has the product \<open>-62.5\<close> with
  1000, computed exactly. It is rounded to the double nearest to \<open>-0.062\<close>, which is nearer
  to zero than the latitude; rounding half away from zero gives \<open>-0.063\<close>, and the result is
  not the double nearest to that.
\<close>

theorem negative_tie_rounds_towards_zero_counterexample:
  "precision_of default_config = 3
   \<and> fl (- 1 / 16) = - 1 / 16
   \<and> fl (- 1 / 16 * 10 powi 3) = - 125 / 2
   \<and> roundCoord (- 1 / 16) 3 = fl (- 62 / 1000)
   \<and> round_half_away_at (- 1 / 16) 3 = - 63 / 1000
   \<and> roundCoord (- 1 / 16) 3 \<noteq> fl (- 63 / 1000)
   \<and> \<bar>roundCoord (- 1 / 16) 3\<bar> < 1 / 16"
  unfolding roundCoord_def Let_def Math_round_def round_half_away_at_def round_half_away_def
    precision_of_def default_config_def clamp_def
  by (simp add: fl_def round_even_def expo.simps)

end
